theory Spec2Isabelle
  imports Main "HOL-Library.Sublist"
begin

section \<open>Text\<close>

text \<open>
  A Python \<^verbatim>\<open>str\<close> is a sequence of code points and \<^verbatim>\<open>len\<close> counts them. The model
  writes it as a \<^typ>\<open>string\<close> in which one \<^typ>\<open>char\<close> stands for one code point, so
  \<^const>\<open>length\<close> is \<^verbatim>\<open>len\<close> and \<^const>\<open>take\<close> is the slice \<^verbatim>\<open>s[:n]\<close>. The character
  classes below are those of Python on the code points 0 to 255.
\<close>

text \<open>\<^verbatim>\<open>sep.join(parts)\<close>.\<close>

fun join :: "string \<Rightarrow> string list \<Rightarrow> string" where
  "join sep [] = []"
| "join sep [p] = p"
| "join sep (p # q # ps) = p @ sep @ join sep (q # ps)"

text \<open>\<^verbatim>\<open>c.isspace()\<close>: tab to carriage return, the four separators, space, NEL and NBSP.\<close>

definition isspace :: "char \<Rightarrow> bool" where
  "isspace c \<longleftrightarrow> c \<in> set [CHR 0x09, CHR 0x0A, CHR 0x0B, CHR 0x0C, CHR 0x0D,
     CHR 0x1C, CHR 0x1D, CHR 0x1E, CHR 0x1F, CHR 0x20, CHR 0x85, CHR 0xA0]"

text \<open>\<^verbatim>\<open>s.strip()\<close>: whitespace removed at both ends.\<close>

definition strip :: "string \<Rightarrow> string" where
  "strip s = rev (dropWhile isspace (rev (dropWhile isspace s)))"

text \<open>\<^verbatim>\<open>s.lower()\<close>, one character at a time: the letters A to Z and the capital letters
  of the range 0xC0 to 0xDE (the multiplication sign 0xD7 is not one) move up by 0x20;
  every other character of the range stays.\<close>

definition upper_letters :: string where
  "upper_letters = ''ABCDEFGHIJKLMNOPQRSTUVWXYZ'' @
       [CHR 0xC0, CHR 0xC1, CHR 0xC2, CHR 0xC3, CHR 0xC4, CHR 0xC5, CHR 0xC6, CHR 0xC7,
        CHR 0xC8, CHR 0xC9, CHR 0xCA, CHR 0xCB, CHR 0xCC, CHR 0xCD, CHR 0xCE, CHR 0xCF,
        CHR 0xD0, CHR 0xD1, CHR 0xD2, CHR 0xD3, CHR 0xD4, CHR 0xD5, CHR 0xD6, CHR 0xD8,
        CHR 0xD9, CHR 0xDA, CHR 0xDB, CHR 0xDC, CHR 0xDD, CHR 0xDE]"

definition lower_letters :: string where
  "lower_letters = ''abcdefghijklmnopqrstuvwxyz'' @
       [CHR 0xE0, CHR 0xE1, CHR 0xE2, CHR 0xE3, CHR 0xE4, CHR 0xE5, CHR 0xE6, CHR 0xE7,
        CHR 0xE8, CHR 0xE9, CHR 0xEA, CHR 0xEB, CHR 0xEC, CHR 0xED, CHR 0xEE, CHR 0xEF,
        CHR 0xF0, CHR 0xF1, CHR 0xF2, CHR 0xF3, CHR 0xF4, CHR 0xF5, CHR 0xF6, CHR 0xF8,
        CHR 0xF9, CHR 0xFA, CHR 0xFB, CHR 0xFC, CHR 0xFD, CHR 0xFE]"

definition lower_char :: "char \<Rightarrow> char" where
  "lower_char c = (case map_of (zip upper_letters lower_letters) c of None \<Rightarrow> c | Some l \<Rightarrow> l)"

definition lower :: "string \<Rightarrow> string" where
  "lower s = map lower_char s"

text \<open>\<^verbatim>\<open>kw in s\<close> on strings: \<open>kw\<close> occurs in \<open>s\<close> as a contiguous run.\<close>

fun contains :: "string \<Rightarrow> string \<Rightarrow> bool" where
  "contains [] kw = (kw = [])"
| "contains (c # cs) kw = (prefix kw (c # cs) \<or> contains cs kw)"

text \<open>\<^verbatim>\<open>d.get(key, default)\<close> on a key that may be absent.\<close>

definition get_or :: "'a option \<Rightarrow> 'a \<Rightarrow> 'a" where
  "get_or v dflt = (case v of None \<Rightarrow> dflt | Some x \<Rightarrow> x)"

section \<open>Requests\<close>

text \<open>
  A message is a JSON object read with \<^verbatim>\<open>msg.get('role', ...)\<close> and
  \<^verbatim>\<open>msg.get('content', '')\<close>: either key may be absent. The request body is read the
  same way, with \<^verbatim>\<open>messages\<close>, \<^verbatim>\<open>stream\<close> and \<^verbatim>\<open>model\<close>.
\<close>

record message =
  role :: "string option"
  content :: "string option"

record request =
  messages :: "message list option"
  stream :: "bool option"
  model :: "string option"

section \<open>Prompt assembly\<close>

text \<open>The body of the loop \<^verbatim>\<open>for msg in messages\<close> of \<^verbatim>\<open>chat_completions\<close>: the rendered
  segment that is appended to \<^verbatim>\<open>prompt_parts\<close>.\<close>

definition render_message :: "message \<Rightarrow> string" where
  "render_message msg =
     (let r = get_or (role msg) ''user'';
          c = get_or (content msg) ''''
      in if r = ''system'' then ''System: '' @ c
         else if r = ''assistant'' then ''Assistant: '' @ c
         else ''Human: '' @ c)"

fun append_messages :: "string list \<Rightarrow> message list \<Rightarrow> string list" where
  "append_messages prompt_parts [] = prompt_parts"
| "append_messages prompt_parts (msg # msgs) =
     append_messages (prompt_parts @ [render_message msg]) msgs"

text \<open>\<^verbatim>\<open>prompt_parts = [f"System: {system_prompt}"]\<close>, the loop, and the final
  \<^verbatim>\<open>"\n\n".join(prompt_parts)\<close>. Both servers build the prompt this way; they differ in
  the system prompt they start from.\<close>

definition prompt_parts :: "string \<Rightarrow> message list \<Rightarrow> string list" where
  "prompt_parts system_prompt msgs = append_messages [''System: '' @ system_prompt] msgs"

definition build_prompt :: "string \<Rightarrow> message list \<Rightarrow> string" where
  "build_prompt system_prompt msgs = join ''\<newline>\<newline>'' (prompt_parts system_prompt msgs)"

section \<open>Context retrieval\<close>

text \<open>
  The vector store is an external collaborator. A collection is modelled by what its
  \<^verbatim>\<open>query(query_texts=[q], n_results=n)\<close> does: it raises, or it returns a result whose
  \<^verbatim>\<open>'documents'\<close> entry holds one list of documents per query text. \<^verbatim>\<open>chroma_client\<close> is
  tested for truth only, \<^verbatim>\<open>chroma_collections\<close> is the dictionary filled at start-up.
\<close>

datatype query_outcome = QueryRaises | QueryReturns "string list list"

type_synonym collection = "string \<Rightarrow> nat \<Rightarrow> query_outcome"

record vector_store =
  chroma_client :: bool
  chroma_collections :: "string \<rightharpoonup> collection"

text \<open>\<^verbatim>\<open>for doc in docs: context_parts.append(doc[:n])\<close>.\<close>

fun append_truncated :: "nat \<Rightarrow> string list \<Rightarrow> string list \<Rightarrow> string list" where
  "append_truncated n context_parts [] = context_parts"
| "append_truncated n context_parts (doc # docs) =
     append_truncated n (context_parts @ [take n doc]) docs"

text \<open>
  The four blocks of \<^verbatim>\<open>retrieve_context\<close> stand inside one \<^verbatim>\<open>try\<close>. Each takes the list
  \<^verbatim>\<open>context_parts\<close> as it is and gives it back: \<open>Inr\<close> when the block ran to its end,
  \<open>Inl\<close> when its query raised, with the list as it was at that moment.
\<close>

definition query_corpus ::
  "(string \<rightharpoonup> collection) \<Rightarrow> string \<Rightarrow> string list \<Rightarrow> string list + string list" where
  "query_corpus colls user_message context_parts =
     (case colls ''corpus'' of
        None \<Rightarrow> Inr context_parts
      | Some coll \<Rightarrow>
          (case coll user_message 3 of
             QueryRaises \<Rightarrow> Inl context_parts
           | QueryReturns documents \<Rightarrow>
               (case documents of
                  [] \<Rightarrow> Inr context_parts
                | docs # _ \<Rightarrow>
                    if docs = [] then Inr context_parts
                    else Inr (append_truncated 500
                           (context_parts @ [''CONVERSATION EXAMPLES FROM SERGIO:'']) docs))))"

definition query_personality ::
  "(string \<rightharpoonup> collection) \<Rightarrow> string \<Rightarrow> string list \<Rightarrow> string list + string list" where
  "query_personality colls user_message context_parts =
     (case colls ''personality'' of
        None \<Rightarrow> Inr context_parts
      | Some coll \<Rightarrow>
          (case coll user_message 2 of
             QueryRaises \<Rightarrow> Inl context_parts
           | QueryReturns documents \<Rightarrow>
               (case documents of
                  [] \<Rightarrow> Inr context_parts
                | docs # _ \<Rightarrow>
                    if docs = [] then Inr context_parts
                    else Inr (append_truncated 300
                           (context_parts @ [''\<newline>PERSONALITY FRAMEWORKS:'']) docs))))"

definition query_rhetorical ::
  "(string \<rightharpoonup> collection) \<Rightarrow> string \<Rightarrow> string list \<Rightarrow> string list + string list" where
  "query_rhetorical colls user_message context_parts =
     (case colls ''rhetorical'' of
        None \<Rightarrow> Inr context_parts
      | Some coll \<Rightarrow>
          (case coll user_message 1 of
             QueryRaises \<Rightarrow> Inl context_parts
           | QueryReturns documents \<Rightarrow>
               (case documents of
                  [] \<Rightarrow> Inr context_parts
                | docs # _ \<Rightarrow>
                    (case docs of
                       [] \<Rightarrow> Inr context_parts
                     | doc # _ \<Rightarrow>
                         Inr (context_parts @ [''\<newline>RHETORICAL DEVICE TO USE:'', take 200 doc])))))"

definition humor_keywords :: "string list" where
  "humor_keywords =
     [''absurd'', ''ridicul'', ''spirit'', ''vibra'', ''energ'', ''manifest'', ''univers'']"

definition query_humor ::
  "(string \<rightharpoonup> collection) \<Rightarrow> string \<Rightarrow> string list \<Rightarrow> string list + string list" where
  "query_humor colls user_message context_parts =
     (if list_ex (contains (lower user_message)) humor_keywords then
        (case colls ''humor'' of
           None \<Rightarrow> Inr context_parts
         | Some coll \<Rightarrow>
             (case coll user_message 2 of
                QueryRaises \<Rightarrow> Inl context_parts
              | QueryReturns documents \<Rightarrow>
                  (case documents of
                     [] \<Rightarrow> Inr context_parts
                   | docs # _ \<Rightarrow>
                       if docs = [] then Inr context_parts
                       else Inr (append_truncated 200
                              (context_parts @ [''\<newline>HUMOR PATTERNS TO DEPLOY:'']) docs))))
      else Inr context_parts)"

text \<open>Inside the \<^verbatim>\<open>try\<close>, the next block runs only when the one before did not raise.\<close>

definition try_next ::
  "string list + string list \<Rightarrow> (string list \<Rightarrow> string list + string list) \<Rightarrow>
   string list + string list" where
  "try_next r block = (case r of Inl parts \<Rightarrow> Inl parts | Inr parts \<Rightarrow> block parts)"

text \<open>The list after \<^verbatim>\<open>try ... except Exception\<close>: the handler only prints, so the list is
  what the blocks had appended, whether or not one of them raised.\<close>

definition parts_of :: "string list + string list \<Rightarrow> string list" where
  "parts_of r = (case r of Inl parts \<Rightarrow> parts | Inr parts \<Rightarrow> parts)"

definition context_parts :: "(string \<rightharpoonup> collection) \<Rightarrow> string \<Rightarrow> string list" where
  "context_parts colls user_message =
     parts_of
       (try_next
         (try_next
           (try_next (query_corpus colls user_message [])
             (query_personality colls user_message))
           (query_rhetorical colls user_message))
         (query_humor colls user_message))"

definition retrieve_context :: "vector_store \<Rightarrow> string \<Rightarrow> string" where
  "retrieve_context store user_message =
     (if \<not> chroma_client store then ''''
      else let parts = context_parts (chroma_collections store) user_message
           in if parts \<noteq> [] then join ''\<newline>'' parts else '''')"

section \<open>The system prompt of the retrieval server\<close>

text \<open>\<^verbatim>\<open>for msg in reversed(messages): if msg.get('role') == 'user': ...; break\<close>, on the
  reversed list.\<close>

fun first_user_content :: "message list \<Rightarrow> string" where
  "first_user_content [] = ''''"
| "first_user_content (msg # msgs) =
     (if role msg = Some ''user'' then get_or (content msg) ''''
      else first_user_content msgs)"

definition latest_user_message :: "message list \<Rightarrow> string" where
  "latest_user_message msgs = first_user_content (rev msgs)"

definition personality_context :: "vector_store \<Rightarrow> message list \<Rightarrow> string" where
  "personality_context store msgs =
     (let user_message = latest_user_message msgs
      in if user_message \<noteq> '''' then retrieve_context store user_message else '''')"

text \<open>
  \<^verbatim>\<open>SERGIO_SYSTEM_PROMPT\<close> is a fixed text with characters beyond the Latin range, so the
  model takes it as a parameter. In the retrieval server it ends with its only slot,
  \<^verbatim>\<open>{personality_context}\<close>, and holds no other brace: \<^verbatim>\<open>format\<close> puts the context after
  the text that precedes the slot, which is the parameter here.
\<close>

definition rag_system_prompt :: "string \<Rightarrow> vector_store \<Rightarrow> message list \<Rightarrow> string" where
  "rag_system_prompt SERGIO_SYSTEM_PROMPT store msgs =
     (let pc = personality_context store msgs
      in SERGIO_SYSTEM_PROMPT @
           (if pc \<noteq> '''' then pc else ''No additional context retrieved.''))"

section \<open>The inference invoker\<close>

text \<open>
  The backend process and the clock are outside the program. \<^verbatim>\<open>subprocess.run\<close> is given
  the argument list, the child environment and the time limit in seconds, and either
  returns the exit status, the captured standard output and the captured standard error,
  or raises; it is called without \<^verbatim>\<open>check\<close>, so no exit status makes it raise.
  \<^verbatim>\<open>subprocess.Popen\<close> followed by the iteration over \<^verbatim>\<open>process.stdout\<close> gives the
  lines read, a finite list, and, when the launch or a read raised, the exception that
  ended it. The identifier and the time stamp drawn for a response are read from the same
  record.
\<close>

datatype exn = TimeoutExpired | Exception string

datatype run_result = CompletedProcess int string string | RunRaises exn

record host =
  CLAUDE_CLI :: string
  os_environ :: "string \<rightharpoonup> string"
  subprocess_run :: "string list \<Rightarrow> (string \<rightharpoonup> string) \<Rightarrow> nat \<Rightarrow> run_result"
  subprocess_Popen :: "string list \<Rightarrow> (string \<rightharpoonup> string) \<Rightarrow> string list \<times> exn option"
  uuid4_hex :: string
  now_timestamp :: int

text \<open>The two \<^verbatim>\<open>except\<close> clauses of \<^verbatim>\<open>call_claude_cli\<close>, in their order; the argument of
  \<open>Exception\<close> is \<^verbatim>\<open>str(e)\<close>.\<close>

fun error_text :: "exn \<Rightarrow> string" where
  "error_text TimeoutExpired = ''[Error: Request timed out after 300s]''"
| "error_text (Exception detail) = ''[Error: '' @ detail @ '']''"

definition child_env :: "(string \<rightharpoonup> string) \<Rightarrow> (string \<rightharpoonup> string)" where
  "child_env environ =
     (environ(''ANTHROPIC_API_KEY'' := None))(''CLAUDE_USE_SUBSCRIPTION'' \<mapsto> ''true'')"

text \<open>The generator \<^verbatim>\<open>call_claude_cli(prompt, stream)\<close>, as the list of what it yields.\<close>

definition call_claude_cli :: "host \<Rightarrow> string \<Rightarrow> bool \<Rightarrow> string list" where
  "call_claude_cli h prompt streaming =
     (let env = child_env (os_environ h);
          args = [CLAUDE_CLI h, ''--print'', prompt]
      in if streaming then
           (case subprocess_Popen h args env of
              (lines, None) \<Rightarrow> lines
            | (lines, Some e) \<Rightarrow> lines @ [error_text e])
         else
           (case subprocess_run h args env 300 of
              CompletedProcess returncode stdout stderr \<Rightarrow> [stdout]
            | RunRaises e \<Rightarrow> [error_text e]))"

section \<open>The response framer\<close>

record chunk_choice =
  chunk_index :: nat
  delta :: "string option"
  chunk_finish_reason :: "string option"

record completion_chunk =
  chunk_id :: string
  chunk_object :: string
  chunk_created :: int
  chunk_model :: string
  chunk_choices :: "chunk_choice list"

text \<open>An event of the stream: \<^verbatim>\<open>f"data: {json.dumps(data)}\n\n"\<close> for a chunk object, or
  the literal \<^verbatim>\<open>"data: [DONE]\n\n"\<close>. In \<open>delta\<close>, \<open>Some c\<close> is \<^verbatim>\<open>{"content": c}\<close> and
  \<open>None\<close> is the empty object.\<close>

datatype sse_event = Data completion_chunk | Done

text \<open>The body of \<^verbatim>\<open>generate\<close> after the identifier and the time stamp are drawn: the
  loop over what the invoker yields, then the final chunk and the sentinel.\<close>

fun generate_events :: "string \<Rightarrow> int \<Rightarrow> string \<Rightarrow> string list \<Rightarrow> sse_event list" where
  "generate_events response_id created mdl [] =
     [Data \<lparr>chunk_id = response_id, chunk_object = ''chat.completion.chunk'',
             chunk_created = created, chunk_model = mdl,
             chunk_choices = [\<lparr>chunk_index = 0, delta = None,
                                chunk_finish_reason = Some ''stop''\<rparr>]\<rparr>,
      Done]"
| "generate_events response_id created mdl (chunk # chunks) =
     Data \<lparr>chunk_id = response_id, chunk_object = ''chat.completion.chunk'',
            chunk_created = created, chunk_model = mdl,
            chunk_choices = [\<lparr>chunk_index = 0, delta = Some chunk,
                               chunk_finish_reason = None\<rparr>]\<rparr>
     # generate_events response_id created mdl chunks"

definition generate :: "host \<Rightarrow> string \<Rightarrow> string \<Rightarrow> sse_event list" where
  "generate h mdl prompt =
     (let response_id = ''chatcmpl-'' @ take 8 (uuid4_hex h);
          created = now_timestamp h
      in generate_events response_id created mdl (call_claude_cli h prompt True))"

record usage_block =
  prompt_tokens :: nat
  completion_tokens :: nat
  total_tokens :: nat

record chat_message =
  message_role :: string
  message_content :: string

record choice =
  choice_index :: nat
  choice_message :: chat_message
  finish_reason :: string

record chat_completion =
  completion_id :: string
  completion_object :: string
  completion_created :: int
  completion_model :: string
  choices :: "choice list"
  usage :: usage_block

text \<open>The \<^verbatim>\<open>else\<close> branch of \<^verbatim>\<open>chat_completions\<close>: the object given to \<^verbatim>\<open>jsonify\<close>.\<close>

definition buffered_completion :: "host \<Rightarrow> string \<Rightarrow> string \<Rightarrow> chat_completion" where
  "buffered_completion h mdl prompt =
     (let response_text = concat (call_claude_cli h prompt False)
      in \<lparr>completion_id = ''chatcmpl-'' @ take 8 (uuid4_hex h),
          completion_object = ''chat.completion'',
          completion_created = now_timestamp h,
          completion_model = mdl,
          choices = [\<lparr>choice_index = 0,
                      choice_message = \<lparr>message_role = ''assistant'',
                                         message_content = strip response_text\<rparr>,
                      finish_reason = ''stop''\<rparr>],
          usage = \<lparr>prompt_tokens = length prompt div 4,
                   completion_tokens = length response_text div 4,
                   total_tokens = (length prompt + length response_text) div 4\<rparr>\<rparr>)"

section \<open>The endpoint\<close>

text \<open>What the handler returns: \<^verbatim>\<open>jsonify(...)\<close> or
  \<^verbatim>\<open>Response(generate(), mimetype='text/event-stream')\<close>, both with the framework's
  default status.\<close>

datatype response_body = JsonBody chat_completion | EventStream "sse_event list"

record http_response =
  status :: nat
  mimetype :: string
  body :: response_body

text \<open>From \<^verbatim>\<open>if stream:\<close> on, the two servers run the same text.\<close>

definition respond :: "host \<Rightarrow> string \<Rightarrow> bool \<Rightarrow> string \<Rightarrow> http_response" where
  "respond h mdl streaming prompt =
     (if streaming then
        \<lparr>status = 200, mimetype = ''text/event-stream'',
         body = EventStream (generate h mdl prompt)\<rparr>
      else
        \<lparr>status = 200, mimetype = ''application/json'',
         body = JsonBody (buffered_completion h mdl prompt)\<rparr>)"

text \<open>\<^verbatim>\<open>chat_completions\<close> of \<^verbatim>\<open>claude_api_server.py\<close>.\<close>

definition chat_completions :: "host \<Rightarrow> string \<Rightarrow> request \<Rightarrow> http_response" where
  "chat_completions h SERGIO_SYSTEM_PROMPT data =
     (let msgs = get_or (messages data) [];
          streaming = get_or (stream data) False;
          mdl = get_or (model data) ''claude-max'';
          prompt = build_prompt SERGIO_SYSTEM_PROMPT msgs
      in respond h mdl streaming prompt)"

text \<open>\<^verbatim>\<open>chat_completions\<close> of \<^verbatim>\<open>claude_api_server_rag.py\<close>.\<close>

definition rag_chat_completions ::
  "host \<Rightarrow> vector_store \<Rightarrow> string \<Rightarrow> request \<Rightarrow> http_response" where
  "rag_chat_completions h store SERGIO_SYSTEM_PROMPT data =
     (let msgs = get_or (messages data) [];
          streaming = get_or (stream data) False;
          mdl = get_or (model data) ''sergio-rag'';
          system_prompt = rag_system_prompt SERGIO_SYSTEM_PROMPT store msgs;
          prompt = build_prompt system_prompt msgs
      in respond h mdl streaming prompt)"

section \<open>Predicates of the statements\<close>

text \<open>A query that returns and brings no document: the result fails the test
  \<^verbatim>\<open>results and results['documents'] and results['documents'][0]\<close>.\<close>

definition returns_nothing :: "query_outcome \<Rightarrow> bool" where
  "returns_nothing outcome =
     (case outcome of
        QueryRaises \<Rightarrow> False
      | QueryReturns documents \<Rightarrow> (case documents of [] \<Rightarrow> True | docs # _ \<Rightarrow> docs = []))"

text \<open>The collection stored under \<open>key\<close> is loaded and its query for \<open>n\<close> results
  raises.\<close>

definition lookup_raises :: "(string \<rightharpoonup> collection) \<Rightarrow> string \<Rightarrow> string \<Rightarrow> nat \<Rightarrow> bool" where
  "lookup_raises colls user_message key n =
     (case colls key of None \<Rightarrow> False | Some coll \<Rightarrow> coll user_message n = QueryRaises)"

text \<open>A run of context parts that is empty, or is the heading followed by fragments of at
  most \<open>cap\<close> characters each.\<close>

definition capped_block :: "string \<Rightarrow> nat \<Rightarrow> string list \<Rightarrow> bool" where
  "capped_block heading cap block =
     (case block of
        [] \<Rightarrow> True
      | first # frags \<Rightarrow> first = heading \<and> list_all (\<lambda>f. length f \<le> cap) frags)"

section \<open>Example inputs\<close>

text \<open>A host whose backend behaves in one fixed way, with a fixed identifier and time
  stamp.\<close>

definition example_host :: "run_result \<Rightarrow> string list \<times> exn option \<Rightarrow> host" where
  "example_host r s =
     \<lparr>CLAUDE_CLI = ''/root/.local/bin/claude'', os_environ = Map.empty,
      subprocess_run = (\<lambda>args env limit. r), subprocess_Popen = (\<lambda>args env. s),
      uuid4_hex = ''9f1c2ab47d3e4f60a1b2c3d4e5f60718'', now_timestamp = 1730000000\<rparr>"

text \<open>A collection that returns the first \<open>n_results\<close> of its documents for every query,
  and one whose query raises.\<close>

definition example_collection :: "string list \<Rightarrow> collection" where
  "example_collection docs = (\<lambda>query_text n_results. QueryReturns [take n_results docs])"

definition failing_collection :: collection where
  "failing_collection = (\<lambda>query_text n_results. QueryRaises)"

text \<open>A store whose documents are longer than the caps, and one with short documents.\<close>

definition example_store :: vector_store where
  "example_store =
     \<lparr>chroma_client = True,
      chroma_collections =
        [''corpus'' \<mapsto> example_collection [replicate 600 (CHR ''c'')],
         ''personality'' \<mapsto> example_collection [replicate 400 (CHR ''p'')],
         ''rhetorical'' \<mapsto> example_collection [replicate 250 (CHR ''r'')],
         ''humor'' \<mapsto> example_collection [replicate 250 (CHR ''h'')]]\<rparr>"

definition short_store :: vector_store where
  "short_store =
     \<lparr>chroma_client = True,
      chroma_collections =
        [''corpus'' \<mapsto> example_collection [''Mira, eso no esta mal.''],
         ''personality'' \<mapsto> example_collection [''Identity is interaction.''],
         ''rhetorical'' \<mapsto> example_collection [''Reframing.''],
         ''humor'' \<mapsto> example_collection [''Aspiradora.'']]\<rparr>"

text \<open>The store with short documents, with the lookup of one collection raising.\<close>

definition failing_at :: "string \<Rightarrow> vector_store" where
  "failing_at key =
     short_store\<lparr>chroma_collections := (chroma_collections short_store)(key \<mapsto> failing_collection)\<rparr>"

section \<open>Auxiliary facts\<close>

lemma append_messages_map:
  "append_messages parts msgs = parts @ map render_message msgs"
  by (induction msgs arbitrary: parts) simp_all

lemma join_Cons_prefix: "prefix p (join sep (p # ps))"
  by (cases ps) simp_all

lemma prompt_parts_map:
  "prompt_parts system_prompt msgs = (''System: '' @ system_prompt) # map render_message msgs"
  by (simp add: prompt_parts_def append_messages_map)

lemma usage_buffered:
  "usage (buffered_completion h mdl prompt) =
     \<lparr>prompt_tokens = length prompt div 4,
      completion_tokens = length (concat (call_claude_cli h prompt False)) div 4,
      total_tokens = (length prompt + length (concat (call_claude_cli h prompt False))) div 4\<rparr>"
  by (simp add: buffered_completion_def Let_def)

lemma generate_events_map:
  "generate_events response_id created mdl chunks =
     map (\<lambda>chunk. Data \<lparr>chunk_id = response_id, chunk_object = ''chat.completion.chunk'',
            chunk_created = created, chunk_model = mdl,
            chunk_choices = [\<lparr>chunk_index = 0, delta = Some chunk,
                               chunk_finish_reason = None\<rparr>]\<rparr>) chunks
     @ [Data \<lparr>chunk_id = response_id, chunk_object = ''chat.completion.chunk'',
             chunk_created = created, chunk_model = mdl,
             chunk_choices = [\<lparr>chunk_index = 0, delta = None,
                                chunk_finish_reason = Some ''stop''\<rparr>]\<rparr>,
        Done]"
  by (induction chunks) simp_all

lemma filter_map_none: "(\<And>x. \<not> P (f x)) \<Longrightarrow> filter P (map f xs) = []"
  by (induction xs) simp_all

lemma strip_no_outer_space:
  "\<not> isspace a \<Longrightarrow> \<not> isspace b \<Longrightarrow> strip (a # s @ [b]) = a # s @ [b]"
  by (simp add: strip_def)

lemma strip_error_text: "strip (error_text e) = error_text e"
proof (cases e)
  case TimeoutExpired
  then show ?thesis by (simp add: strip_def isspace_def)
next
  case (Exception detail)
  have "strip (CHR ''['' # (''Error: '' @ detail) @ [CHR '']'']) = CHR ''['' # (''Error: '' @ detail) @ [CHR '']'']"
    by (rule strip_no_outer_space) (simp_all add: isspace_def)
  with Exception show ?thesis by simp
qed

lemma first_user_content_filter:
  "first_user_content (rev msgs) =
     (case filter (\<lambda>m. role m = Some ''user'') msgs of
        [] \<Rightarrow> '''' | m # ms \<Rightarrow> get_or (content (last (m # ms))) '''')"
  by (induction msgs rule: rev_induct) (auto split: list.splits)

lemma append_truncated_map:
  "append_truncated n parts docs = parts @ map (take n) docs"
  by (induction docs arbitrary: parts) simp_all

lemma context_parts_no_collections: "context_parts Map.empty q = []"
  by (simp add: context_parts_def try_next_def parts_of_def query_corpus_def
      query_personality_def query_rhetorical_def query_humor_def)

lemma query_corpus_nothing:
  "(\<And>coll. colls ''corpus'' = Some coll \<Longrightarrow> returns_nothing (coll q 3)) \<Longrightarrow>
   query_corpus colls q parts = Inr parts"
  by (auto simp: query_corpus_def returns_nothing_def
      split: option.splits query_outcome.splits list.splits)

lemma query_personality_nothing:
  "(\<And>coll. colls ''personality'' = Some coll \<Longrightarrow> returns_nothing (coll q 2)) \<Longrightarrow>
   query_personality colls q parts = Inr parts"
  by (auto simp: query_personality_def returns_nothing_def
      split: option.splits query_outcome.splits list.splits)

lemma query_rhetorical_nothing:
  "(\<And>coll. colls ''rhetorical'' = Some coll \<Longrightarrow> returns_nothing (coll q 1)) \<Longrightarrow>
   query_rhetorical colls q parts = Inr parts"
  by (auto simp: query_rhetorical_def returns_nothing_def
      split: option.splits query_outcome.splits list.splits)

lemma query_humor_nothing:
  "(\<And>coll. colls ''humor'' = Some coll \<Longrightarrow> returns_nothing (coll q 2)) \<Longrightarrow>
   query_humor colls q parts = Inr parts"
  by (auto simp: query_humor_def returns_nothing_def
      split: option.splits query_outcome.splits list.splits)

lemma context_parts_nothing:
  assumes "\<And>key coll n. colls key = Some coll \<Longrightarrow> returns_nothing (coll q n)"
  shows "context_parts colls q = []"
  using assms
  by (simp add: context_parts_def try_next_def parts_of_def query_corpus_nothing
      query_personality_nothing query_rhetorical_nothing query_humor_nothing)

lemma query_corpus_restrict:
  "query_corpus (colls |` S) q parts
     = (if ''corpus'' \<in> S then query_corpus colls q parts else Inr parts)"
  by (simp add: query_corpus_def restrict_map_def)

lemma query_personality_restrict:
  "query_personality (colls |` S) q parts
     = (if ''personality'' \<in> S then query_personality colls q parts else Inr parts)"
  by (simp add: query_personality_def restrict_map_def)

lemma query_rhetorical_restrict:
  "query_rhetorical (colls |` S) q parts
     = (if ''rhetorical'' \<in> S then query_rhetorical colls q parts else Inr parts)"
  by (simp add: query_rhetorical_def restrict_map_def)

lemma query_humor_restrict:
  "query_humor (colls |` S) q parts
     = (if ''humor'' \<in> S then query_humor colls q parts else Inr parts)"
  by (simp add: query_humor_def restrict_map_def)

lemma query_corpus_raises:
  "lookup_raises colls q ''corpus'' 3 \<Longrightarrow> query_corpus colls q parts = Inl parts"
  by (simp add: lookup_raises_def query_corpus_def split: option.splits)

lemma query_personality_raises:
  "lookup_raises colls q ''personality'' 2 \<Longrightarrow> query_personality colls q parts = Inl parts"
  by (simp add: lookup_raises_def query_personality_def split: option.splits)

lemma query_rhetorical_raises:
  "lookup_raises colls q ''rhetorical'' 1 \<Longrightarrow> query_rhetorical colls q parts = Inl parts"
  by (simp add: lookup_raises_def query_rhetorical_def split: option.splits)

lemma query_humor_raises:
  "lookup_raises colls q ''humor'' 2 \<Longrightarrow> parts_of (query_humor colls q parts) = parts"
  by (simp add: lookup_raises_def query_humor_def parts_of_def split: option.splits)

lemma query_corpus_returns:
  "\<not> lookup_raises colls q ''corpus'' 3 \<Longrightarrow> \<exists>parts'. query_corpus colls q parts = Inr parts'"
  by (simp add: lookup_raises_def query_corpus_def
      split: option.splits query_outcome.splits list.splits)

lemma query_personality_returns:
  "\<not> lookup_raises colls q ''personality'' 2 \<Longrightarrow>
   \<exists>parts'. query_personality colls q parts = Inr parts'"
  by (simp add: lookup_raises_def query_personality_def
      split: option.splits query_outcome.splits list.splits)

lemma query_rhetorical_returns:
  "\<not> lookup_raises colls q ''rhetorical'' 1 \<Longrightarrow>
   \<exists>parts'. query_rhetorical colls q parts = Inr parts'"
  by (simp add: lookup_raises_def query_rhetorical_def
      split: option.splits query_outcome.splits list.splits)

lemma context_parts_corpus_raises:
  assumes "lookup_raises colls q ''corpus'' 3"
  shows "context_parts colls q = []"
  by (simp add: context_parts_def try_next_def parts_of_def query_corpus_raises [OF assms])

lemma context_parts_personality_raises:
  assumes "\<not> lookup_raises colls q ''corpus'' 3" "lookup_raises colls q ''personality'' 2"
  shows "context_parts colls q = context_parts (colls |` {''corpus''}) q"
proof -
  obtain p1 where "query_corpus colls q [] = Inr p1"
    using query_corpus_returns [OF assms(1)] by blast
  then show ?thesis
    by (simp add: context_parts_def try_next_def parts_of_def
        query_personality_raises [OF assms(2)] query_corpus_restrict
        query_personality_restrict query_rhetorical_restrict query_humor_restrict)
qed

lemma context_parts_rhetorical_raises:
  assumes "\<not> lookup_raises colls q ''corpus'' 3" "\<not> lookup_raises colls q ''personality'' 2"
    "lookup_raises colls q ''rhetorical'' 1"
  shows "context_parts colls q = context_parts (colls |` {''corpus'', ''personality''}) q"
proof -
  obtain p1 where 1: "query_corpus colls q [] = Inr p1"
    using query_corpus_returns [OF assms(1)] by blast
  obtain p2 where 2: "query_personality colls q p1 = Inr p2"
    using query_personality_returns [OF assms(2)] by blast
  show ?thesis
    by (simp add: context_parts_def try_next_def parts_of_def 1 2
        query_rhetorical_raises [OF assms(3)] query_corpus_restrict
        query_personality_restrict query_rhetorical_restrict query_humor_restrict)
qed

lemma context_parts_humor_raises:
  assumes "\<not> lookup_raises colls q ''corpus'' 3" "\<not> lookup_raises colls q ''personality'' 2"
    "\<not> lookup_raises colls q ''rhetorical'' 1" "lookup_raises colls q ''humor'' 2"
  shows "context_parts colls q
    = context_parts (colls |` {''corpus'', ''personality'', ''rhetorical''}) q"
proof -
  obtain p1 where 1: "query_corpus colls q [] = Inr p1"
    using query_corpus_returns [OF assms(1)] by blast
  obtain p2 where 2: "query_personality colls q p1 = Inr p2"
    using query_personality_returns [OF assms(2)] by blast
  obtain p3 where 3: "query_rhetorical colls q p2 = Inr p3"
    using query_rhetorical_returns [OF assms(3)] by blast
  have "context_parts colls q = parts_of (query_humor colls q p3)"
    by (simp add: context_parts_def try_next_def 1 2 3)
  also have "\<dots> = p3"
    by (rule query_humor_raises [OF assms(4)])
  also have "p3 = context_parts (colls |` {''corpus'', ''personality'', ''rhetorical''}) q"
    by (simp add: context_parts_def try_next_def parts_of_def 1 2 3 query_corpus_restrict
        query_personality_restrict query_rhetorical_restrict query_humor_restrict)
  finally show ?thesis .
qed

lemma retrieve_context_cong:
  "context_parts (chroma_collections store) q = context_parts colls' q \<Longrightarrow>
   retrieve_context store q = retrieve_context (store\<lparr>chroma_collections := colls'\<rparr>) q"
  by (simp add: retrieve_context_def)

lemma humor_gate_example: "list_ex (contains (lower ''el universo vibra'')) humor_keywords"
  by (simp add: lower_def lower_char_def upper_letters_def lower_letters_def
      humor_keywords_def)

lemma capped_block_Nil: "capped_block heading cap []"
  by (simp add: capped_block_def)

lemma capped_block_take: "capped_block heading cap (heading # map (take cap) docs)"
  by (simp add: capped_block_def list_all_iff)

lemma query_corpus_block:
  "\<exists>block. capped_block ''CONVERSATION EXAMPLES FROM SERGIO:'' 500 block
     \<and> query_corpus colls q parts \<in> {Inl parts, Inr (parts @ block)}"
proof -
  have "query_corpus colls q parts \<in> {Inl parts, Inr (parts @ [])}
      \<or> (\<exists>docs. query_corpus colls q parts
            = Inr (parts @ ''CONVERSATION EXAMPLES FROM SERGIO:'' # map (take 500) docs))"
    by (auto simp: query_corpus_def append_truncated_map
        split: option.splits query_outcome.splits list.splits)
  then show ?thesis
    using capped_block_Nil capped_block_take by blast
qed

lemma query_personality_block:
  "\<exists>block. capped_block ''\<newline>PERSONALITY FRAMEWORKS:'' 300 block
     \<and> query_personality colls q parts \<in> {Inl parts, Inr (parts @ block)}"
proof -
  have "query_personality colls q parts \<in> {Inl parts, Inr (parts @ [])}
      \<or> (\<exists>docs. query_personality colls q parts
            = Inr (parts @ ''\<newline>PERSONALITY FRAMEWORKS:'' # map (take 300) docs))"
    by (auto simp: query_personality_def append_truncated_map
        split: option.splits query_outcome.splits list.splits)
  then show ?thesis
    using capped_block_Nil capped_block_take by blast
qed

lemma query_rhetorical_block:
  "\<exists>block. capped_block ''\<newline>RHETORICAL DEVICE TO USE:'' 200 block
     \<and> query_rhetorical colls q parts \<in> {Inl parts, Inr (parts @ block)}"
proof -
  have "query_rhetorical colls q parts \<in> {Inl parts, Inr (parts @ [])}
      \<or> (\<exists>doc. query_rhetorical colls q parts
            = Inr (parts @ ''\<newline>RHETORICAL DEVICE TO USE:'' # map (take 200) [doc]))"
    by (auto simp: query_rhetorical_def
        split: option.splits query_outcome.splits list.splits)
  then show ?thesis
    using capped_block_Nil capped_block_take by blast
qed

lemma query_humor_block:
  "\<exists>block. capped_block ''\<newline>HUMOR PATTERNS TO DEPLOY:'' 200 block
     \<and> query_humor colls q parts \<in> {Inl parts, Inr (parts @ block)}"
proof -
  have "query_humor colls q parts \<in> {Inl parts, Inr (parts @ [])}
      \<or> (\<exists>docs. query_humor colls q parts
            = Inr (parts @ ''\<newline>HUMOR PATTERNS TO DEPLOY:'' # map (take 200) docs))"
    by (auto simp: query_humor_def append_truncated_map
        split: option.splits query_outcome.splits list.splits)
  then show ?thesis
    using capped_block_Nil capped_block_take by blast
qed

lemma parts_of_block:
  "r \<in> {Inl parts, Inr (parts @ block)} \<Longrightarrow> capped_block heading cap block \<Longrightarrow>
   take (length parts) (parts_of r) = parts
   \<and> capped_block heading cap (drop (length parts) (parts_of r))"
  by (auto simp: parts_of_def capped_block_Nil)

lemma context_parts_blocks:
  "\<exists>b1 b2 b3 b4.
     context_parts colls q = b1 @ b2 @ b3 @ b4
     \<and> capped_block ''CONVERSATION EXAMPLES FROM SERGIO:'' 500 b1
     \<and> capped_block ''\<newline>PERSONALITY FRAMEWORKS:'' 300 b2
     \<and> capped_block ''\<newline>RHETORICAL DEVICE TO USE:'' 200 b3
     \<and> capped_block ''\<newline>HUMOR PATTERNS TO DEPLOY:'' 200 b4"
proof -
  obtain b1 where b1: "capped_block ''CONVERSATION EXAMPLES FROM SERGIO:'' 500 b1"
    and r1: "query_corpus colls q [] \<in> {Inl [], Inr ([] @ b1)}"
    using query_corpus_block by blast
  obtain b2 where b2: "capped_block ''\<newline>PERSONALITY FRAMEWORKS:'' 300 b2"
    and r2: "query_personality colls q b1 \<in> {Inl b1, Inr (b1 @ b2)}"
    using query_personality_block by blast
  obtain b3 where b3: "capped_block ''\<newline>RHETORICAL DEVICE TO USE:'' 200 b3"
    and r3: "query_rhetorical colls q (b1 @ b2) \<in> {Inl (b1 @ b2), Inr ((b1 @ b2) @ b3)}"
    using query_rhetorical_block by blast
  obtain b4 where b4: "capped_block ''\<newline>HUMOR PATTERNS TO DEPLOY:'' 200 b4"
    and r4: "query_humor colls q (b1 @ b2 @ b3)
        \<in> {Inl (b1 @ b2 @ b3), Inr ((b1 @ b2 @ b3) @ b4)}"
    using query_humor_block by blast
  have "context_parts colls q \<in> {[] @ [] @ [] @ [], b1 @ [] @ [] @ [], b1 @ b2 @ [] @ [],
      b1 @ b2 @ b3 @ [], b1 @ b2 @ b3 @ b4}"
    using r1 r2 r3 r4
    by (auto simp: context_parts_def try_next_def parts_of_def)
  then show ?thesis
    using b1 b2 b3 b4 capped_block_Nil by blast
qed

section \<open>Usage accounting\<close>

text \<open>
  C1 (as amended). In a buffered completion \<open>prompt_tokens\<close> is the length of the prompt
  divided by four, rounded down, and \<open>completion_tokens\<close> is the same for the text the
  invoker returned. \<open>total_tokens\<close> is the sum of the two lengths divided by four, rounded
  down: it is never below \<open>prompt_tokens + completion_tokens\<close> and exceeds it by one at
  most.
\<close>

theorem usage_total_is_floor_of_summed_lengths:
  "prompt_tokens (usage (buffered_completion h mdl prompt)) = length prompt div 4
   \<and> completion_tokens (usage (buffered_completion h mdl prompt))
       = length (concat (call_claude_cli h prompt False)) div 4
   \<and> total_tokens (usage (buffered_completion h mdl prompt))
       = (length prompt + length (concat (call_claude_cli h prompt False))) div 4
   \<and> prompt_tokens (usage (buffered_completion h mdl prompt))
       + completion_tokens (usage (buffered_completion h mdl prompt))
       \<le> total_tokens (usage (buffered_completion h mdl prompt))
   \<and> total_tokens (usage (buffered_completion h mdl prompt))
       \<le> prompt_tokens (usage (buffered_completion h mdl prompt))
         + completion_tokens (usage (buffered_completion h mdl prompt)) + 1"
  unfolding usage_buffered by simp linarith

text \<open>
  C1 as stated fails. A persona text of 49 characters and the single user message
  \<open>hola\<close> give a prompt of 70 characters; with a backend output of 11 characters the
  usage block holds 17, 2 and 20, and 20 is not 17 + 2.
\<close>

theorem usage_total_not_sum_counterexample:
  "chat_completions (example_host (CompletedProcess 0 ''Vale, dime.'' '''') ([], None))
       ''You are Sergio, a Spanish-speaking psychologist. ''
       \<lparr>messages = Some [\<lparr>role = Some ''user'', content = Some ''hola''\<rparr>],
        stream = None, model = None\<rparr>
     = \<lparr>status = 200, mimetype = ''application/json'',
        body = JsonBody
          \<lparr>completion_id = ''chatcmpl-9f1c2ab4'',
           completion_object = ''chat.completion'',
           completion_created = 1730000000,
           completion_model = ''claude-max'',
           choices = [\<lparr>choice_index = 0,
                       choice_message = \<lparr>message_role = ''assistant'',
                                          message_content = ''Vale, dime.''\<rparr>,
                       finish_reason = ''stop''\<rparr>],
           usage = \<lparr>prompt_tokens = 17, completion_tokens = 2, total_tokens = 20\<rparr>\<rparr>\<rparr>
   \<and> total_tokens (usage (buffered_completion
         (example_host (CompletedProcess 0 ''Vale, dime.'' '''') ([], None)) ''claude-max''
         (build_prompt ''You are Sergio, a Spanish-speaking psychologist. ''
            [\<lparr>role = Some ''user'', content = Some ''hola''\<rparr>])))
     \<noteq> prompt_tokens (usage (buffered_completion
         (example_host (CompletedProcess 0 ''Vale, dime.'' '''') ([], None)) ''claude-max''
         (build_prompt ''You are Sergio, a Spanish-speaking psychologist. ''
            [\<lparr>role = Some ''user'', content = Some ''hola''\<rparr>])))
       + completion_tokens (usage (buffered_completion
         (example_host (CompletedProcess 0 ''Vale, dime.'' '''') ([], None)) ''claude-max''
         (build_prompt ''You are Sergio, a Spanish-speaking psychologist. ''
            [\<lparr>role = Some ''user'', content = Some ''hola''\<rparr>])))"
proof -
  have p: "build_prompt ''You are Sergio, a Spanish-speaking psychologist. ''
        [\<lparr>role = Some ''user'', content = Some ''hola''\<rparr>]
      = ''System: You are Sergio, a Spanish-speaking psychologist. \<newline>\<newline>Human: hola''"
    by (simp add: build_prompt_def prompt_parts_def render_message_def get_or_def)
  have c: "call_claude_cli (example_host (CompletedProcess 0 ''Vale, dime.'' '''') ([], None)) prompt False
      = [''Vale, dime.'']" for prompt
    by (simp add: call_claude_cli_def example_host_def)
  have s: "strip ''Vale, dime.'' = ''Vale, dime.''"
    by (simp add: strip_def isspace_def)
  have b: "buffered_completion (example_host (CompletedProcess 0 ''Vale, dime.'' '''') ([], None))
        ''claude-max''
        ''System: You are Sergio, a Spanish-speaking psychologist. \<newline>\<newline>Human: hola''
      = \<lparr>completion_id = ''chatcmpl-9f1c2ab4'',
         completion_object = ''chat.completion'',
         completion_created = 1730000000,
         completion_model = ''claude-max'',
         choices = [\<lparr>choice_index = 0,
                     choice_message = \<lparr>message_role = ''assistant'',
                                        message_content = ''Vale, dime.''\<rparr>,
                     finish_reason = ''stop''\<rparr>],
         usage = \<lparr>prompt_tokens = 17, completion_tokens = 2, total_tokens = 20\<rparr>\<rparr>"
    unfolding buffered_completion_def c by (simp add: s example_host_def)
  show ?thesis
    by (simp add: chat_completions_def respond_def get_or_def Let_def p b)
qed

section \<open>The transcript\<close>

text \<open>
  C3. Whatever the caller's messages are, the first segment of the transcript is
  \<open>System: \<close> followed by the system prompt, and the transcript starts with it; each
  caller message, a system message included, is rendered after it, in the caller's order.
  This holds in the plain server, where the system prompt is the persona text, and in the
  retrieval server, where it is the persona text followed by the context block.
\<close>

theorem persona_segment_first:
  "prompt_parts SERGIO_SYSTEM_PROMPT msgs
     = (''System: '' @ SERGIO_SYSTEM_PROMPT) # map render_message msgs
   \<and> prefix (''System: '' @ SERGIO_SYSTEM_PROMPT) (build_prompt SERGIO_SYSTEM_PROMPT msgs)
   \<and> prompt_parts (rag_system_prompt SERGIO_SYSTEM_PROMPT store msgs) msgs
     = (''System: '' @ rag_system_prompt SERGIO_SYSTEM_PROMPT store msgs)
       # map render_message msgs
   \<and> prefix (''System: '' @ rag_system_prompt SERGIO_SYSTEM_PROMPT store msgs)
       (build_prompt (rag_system_prompt SERGIO_SYSTEM_PROMPT store msgs) msgs)
   \<and> prefix SERGIO_SYSTEM_PROMPT (rag_system_prompt SERGIO_SYSTEM_PROMPT store msgs)"
  by (simp add: prompt_parts_map build_prompt_def join_Cons_prefix rag_system_prompt_def Let_def)

text \<open>
  C5. A message whose role is \<open>system\<close> is rendered as \<open>System: \<close> and its content, one
  whose role is \<open>assistant\<close> as \<open>Assistant: \<close> and its content, and every other message,
  a missing role included, as \<open>Human: \<close> and its content; rendering is total. The
  transcript is the segments joined by two newlines.
\<close>

theorem render_rule_and_separator:
  "(role msg = Some ''system'' \<longrightarrow>
      render_message msg = ''System: '' @ get_or (content msg) '''')
   \<and> (role msg = Some ''assistant'' \<longrightarrow>
      render_message msg = ''Assistant: '' @ get_or (content msg) '''')
   \<and> (role msg \<noteq> Some ''system'' \<and> role msg \<noteq> Some ''assistant'' \<longrightarrow>
      render_message msg = ''Human: '' @ get_or (content msg) '''')
   \<and> build_prompt system_prompt msgs
      = join ''\<newline>\<newline>'' ((''System: '' @ system_prompt) # map render_message msgs)"
  by (cases "role msg") (simp_all add: render_message_def get_or_def build_prompt_def prompt_parts_map)

theorem render_rule_and_separator_witness:
  "render_message \<lparr>role = Some ''system'', content = Some ''Be brief.''\<rparr> = ''System: Be brief.''
   \<and> render_message \<lparr>role = Some ''assistant'', content = Some ''Vale.''\<rparr> = ''Assistant: Vale.''
   \<and> render_message \<lparr>role = Some ''tool'', content = Some ''x''\<rparr> = ''Human: x''
   \<and> render_message \<lparr>role = None, content = None\<rparr> = ''Human: ''
   \<and> build_prompt ''P''
        [\<lparr>role = Some ''system'', content = Some ''Be brief.''\<rparr>,
         \<lparr>role = None, content = Some ''hola''\<rparr>]
      = ''System: P\<newline>\<newline>System: Be brief.\<newline>\<newline>Human: hola''"
  using render_rule_and_separator [of "\<lparr>role = Some ''system'', content = Some ''Be brief.''\<rparr>" "''P''"
          "[\<lparr>role = Some ''system'', content = Some ''Be brief.''\<rparr>,
            \<lparr>role = None, content = Some ''hola''\<rparr>]"]
        render_rule_and_separator [of "\<lparr>role = Some ''assistant'', content = Some ''Vale.''\<rparr>" "''P''" "[]"]
        render_rule_and_separator [of "\<lparr>role = Some ''tool'', content = Some ''x''\<rparr>" "''P''" "[]"]
        render_rule_and_separator [of "\<lparr>role = None, content = None\<rparr>" "''P''" "[]"]
        render_rule_and_separator [of "\<lparr>role = None, content = Some ''hola''\<rparr>" "''P''" "[]"]
  by (simp add: get_or_def)

section \<open>Streaming\<close>

text \<open>
  C4. The event sequence of a streaming response is one content chunk for each item the
  invoker yields, with no finish reason, then one chunk with an empty delta and finish
  reason \<open>stop\<close>, then the sentinel \<open>[DONE]\<close>; all chunks carry the same identifier and
  time stamp. The final chunk and the sentinel occur exactly once, also when the backend
  gives no line. When the backend run does not raise, the items yielded are its lines.
\<close>

theorem stream_chunks_then_stop_then_done:
  "generate h mdl prompt =
     map (\<lambda>line. Data \<lparr>chunk_id = ''chatcmpl-'' @ take 8 (uuid4_hex h),
            chunk_object = ''chat.completion.chunk'',
            chunk_created = now_timestamp h, chunk_model = mdl,
            chunk_choices = [\<lparr>chunk_index = 0, delta = Some line,
                               chunk_finish_reason = None\<rparr>]\<rparr>)
         (call_claude_cli h prompt True)
     @ [Data \<lparr>chunk_id = ''chatcmpl-'' @ take 8 (uuid4_hex h),
             chunk_object = ''chat.completion.chunk'',
             chunk_created = now_timestamp h, chunk_model = mdl,
             chunk_choices = [\<lparr>chunk_index = 0, delta = None,
                                chunk_finish_reason = Some ''stop''\<rparr>]\<rparr>,
        Done]
   \<and> length (filter (\<lambda>e. e = Done) (generate h mdl prompt)) = 1
   \<and> length (filter (\<lambda>e. e = Data \<lparr>chunk_id = ''chatcmpl-'' @ take 8 (uuid4_hex h),
             chunk_object = ''chat.completion.chunk'',
             chunk_created = now_timestamp h, chunk_model = mdl,
             chunk_choices = [\<lparr>chunk_index = 0, delta = None,
                                chunk_finish_reason = Some ''stop''\<rparr>]\<rparr>)
         (generate h mdl prompt)) = 1
   \<and> (snd (subprocess_Popen h [CLAUDE_CLI h, ''--print'', prompt] (child_env (os_environ h)))
        = None \<longrightarrow>
      call_claude_cli h prompt True
        = fst (subprocess_Popen h [CLAUDE_CLI h, ''--print'', prompt] (child_env (os_environ h))))"
  by (simp add: generate_def Let_def generate_events_map filter_map_none call_claude_cli_def
      split: prod.splits option.splits)

theorem stream_chunks_then_stop_then_done_witness:
  "generate (example_host (CompletedProcess 0 [] []) ([], None)) ''claude-max'' ''System: P''
     = [Data \<lparr>chunk_id = ''chatcmpl-9f1c2ab4'', chunk_object = ''chat.completion.chunk'',
              chunk_created = 1730000000, chunk_model = ''claude-max'',
              chunk_choices = [\<lparr>chunk_index = 0, delta = None,
                                 chunk_finish_reason = Some ''stop''\<rparr>]\<rparr>,
        Done]
   \<and> generate (example_host (CompletedProcess 0 [] []) ([''Hola.\<newline>'', ''Dime.\<newline>''], None))
        ''claude-max'' ''System: P''
     = [Data \<lparr>chunk_id = ''chatcmpl-9f1c2ab4'', chunk_object = ''chat.completion.chunk'',
              chunk_created = 1730000000, chunk_model = ''claude-max'',
              chunk_choices = [\<lparr>chunk_index = 0, delta = Some ''Hola.\<newline>'',
                                 chunk_finish_reason = None\<rparr>]\<rparr>,
        Data \<lparr>chunk_id = ''chatcmpl-9f1c2ab4'', chunk_object = ''chat.completion.chunk'',
              chunk_created = 1730000000, chunk_model = ''claude-max'',
              chunk_choices = [\<lparr>chunk_index = 0, delta = Some ''Dime.\<newline>'',
                                 chunk_finish_reason = None\<rparr>]\<rparr>,
        Data \<lparr>chunk_id = ''chatcmpl-9f1c2ab4'', chunk_object = ''chat.completion.chunk'',
              chunk_created = 1730000000, chunk_model = ''claude-max'',
              chunk_choices = [\<lparr>chunk_index = 0, delta = None,
                                 chunk_finish_reason = Some ''stop''\<rparr>]\<rparr>,
        Done]"
  using stream_chunks_then_stop_then_done
          [of "example_host (CompletedProcess 0 [] []) ([], None)" "''claude-max''" "''System: P''"]
        stream_chunks_then_stop_then_done
          [of "example_host (CompletedProcess 0 [] []) ([''Hola.\<newline>'', ''Dime.\<newline>''], None)"
              "''claude-max''" "''System: P''"]
  by (simp add: example_host_def)

section \<open>Backend failures in buffered mode\<close>

text \<open>
  C8 as stated fails. A backend that exits with status 1, prints nothing on its standard
  output and writes its complaint to its standard error raises no exception in the
  invoker: the invoker yields the empty output, and the content of the completion is
  empty, with no sentinel text and no trace of the error.
\<close>

theorem nonzero_exit_gives_no_sentinel_counterexample:
  "call_claude_cli (example_host (CompletedProcess 1 '''' ''Error: not logged in'') ([], None))
       ''System: You are Sergio, a Spanish-speaking psychologist. \<newline>\<newline>Human: hola'' False
     = ['''']
   \<and> chat_completions (example_host (CompletedProcess 1 '''' ''Error: not logged in'') ([], None))
       ''You are Sergio, a Spanish-speaking psychologist. ''
       \<lparr>messages = Some [\<lparr>role = Some ''user'', content = Some ''hola''\<rparr>],
        stream = None, model = None\<rparr>
     = \<lparr>status = 200, mimetype = ''application/json'',
        body = JsonBody
          \<lparr>completion_id = ''chatcmpl-9f1c2ab4'',
           completion_object = ''chat.completion'',
           completion_created = 1730000000,
           completion_model = ''claude-max'',
           choices = [\<lparr>choice_index = 0,
                       choice_message = \<lparr>message_role = ''assistant'',
                                          message_content = ''''\<rparr>,
                       finish_reason = ''stop''\<rparr>],
           usage = \<lparr>prompt_tokens = 17, completion_tokens = 0, total_tokens = 17\<rparr>\<rparr>\<rparr>
   \<and> \<not> contains
         (concat (call_claude_cli
            (example_host (CompletedProcess 1 '''' ''Error: not logged in'') ([], None))
            ''System: You are Sergio, a Spanish-speaking psychologist. \<newline>\<newline>Human: hola''
            False))
         ''Error''"
proof -
  have p: "build_prompt ''You are Sergio, a Spanish-speaking psychologist. ''
        [\<lparr>role = Some ''user'', content = Some ''hola''\<rparr>]
      = ''System: You are Sergio, a Spanish-speaking psychologist. \<newline>\<newline>Human: hola''"
    by (simp add: build_prompt_def prompt_parts_def render_message_def get_or_def)
  have c: "call_claude_cli
        (example_host (CompletedProcess 1 '''' ''Error: not logged in'') ([], None)) prompt False
      = ['''']" for prompt
    by (simp add: call_claude_cli_def example_host_def)
  have s: "strip '''' = ''''"
    by (simp add: strip_def)
  have b: "buffered_completion
        (example_host (CompletedProcess 1 '''' ''Error: not logged in'') ([], None))
        ''claude-max''
        ''System: You are Sergio, a Spanish-speaking psychologist. \<newline>\<newline>Human: hola''
      = \<lparr>completion_id = ''chatcmpl-9f1c2ab4'',
         completion_object = ''chat.completion'',
         completion_created = 1730000000,
         completion_model = ''claude-max'',
         choices = [\<lparr>choice_index = 0,
                     choice_message = \<lparr>message_role = ''assistant'',
                                        message_content = ''''\<rparr>,
                     finish_reason = ''stop''\<rparr>],
         usage = \<lparr>prompt_tokens = 17, completion_tokens = 0, total_tokens = 17\<rparr>\<rparr>"
    unfolding buffered_completion_def c by (simp add: s example_host_def)
  show ?thesis
    unfolding c by (simp add: chat_completions_def respond_def get_or_def Let_def p b)
qed

text \<open>
  C8 (as amended). In buffered mode the backend is run with a limit of 300 seconds. When
  the run ends by the time limit, the invoker yields the fixed text
  \<open>[Error: Request timed out after 300s]\<close>; when the launch or the run raises another
  exception, it yields \<open>[Error: \<close>, the detail of the exception and \<open>]\<close>. A run that
  returns, whatever its exit status, is no error for the invoker: it yields the standard
  output as it is. In each case the handler returns a completion object of the usual
  shape, with the yielded text, stripped, as its content, and the status of the response
  is 200.
\<close>

theorem backend_failure_becomes_sentinel_text:
  "(subprocess_run h [CLAUDE_CLI h, ''--print'', prompt] (child_env (os_environ h)) 300
      = RunRaises TimeoutExpired \<longrightarrow>
      call_claude_cli h prompt False = [''[Error: Request timed out after 300s]'']
      \<and> respond h mdl False prompt =
          \<lparr>status = 200, mimetype = ''application/json'',
           body = JsonBody
             \<lparr>completion_id = ''chatcmpl-'' @ take 8 (uuid4_hex h),
              completion_object = ''chat.completion'',
              completion_created = now_timestamp h,
              completion_model = mdl,
              choices = [\<lparr>choice_index = 0,
                          choice_message = \<lparr>message_role = ''assistant'',
                            message_content = ''[Error: Request timed out after 300s]''\<rparr>,
                          finish_reason = ''stop''\<rparr>],
              usage = \<lparr>prompt_tokens = length prompt div 4,
                       completion_tokens = 9,
                       total_tokens = (length prompt + 37) div 4\<rparr>\<rparr>\<rparr>)
   \<and> (subprocess_run h [CLAUDE_CLI h, ''--print'', prompt] (child_env (os_environ h)) 300
      = RunRaises (Exception detail) \<longrightarrow>
      call_claude_cli h prompt False = [''[Error: '' @ detail @ '']'']
      \<and> respond h mdl False prompt =
          \<lparr>status = 200, mimetype = ''application/json'',
           body = JsonBody
             \<lparr>completion_id = ''chatcmpl-'' @ take 8 (uuid4_hex h),
              completion_object = ''chat.completion'',
              completion_created = now_timestamp h,
              completion_model = mdl,
              choices = [\<lparr>choice_index = 0,
                          choice_message = \<lparr>message_role = ''assistant'',
                            message_content = ''[Error: '' @ detail @ '']''\<rparr>,
                          finish_reason = ''stop''\<rparr>],
              usage = \<lparr>prompt_tokens = length prompt div 4,
                       completion_tokens = (length detail + 9) div 4,
                       total_tokens = (length prompt + (length detail + 9)) div 4\<rparr>\<rparr>\<rparr>)
   \<and> (subprocess_run h [CLAUDE_CLI h, ''--print'', prompt] (child_env (os_environ h)) 300
      = CompletedProcess returncode stdout stderr \<longrightarrow>
      call_claude_cli h prompt False = [stdout]
      \<and> respond h mdl False prompt =
          \<lparr>status = 200, mimetype = ''application/json'',
           body = JsonBody
             \<lparr>completion_id = ''chatcmpl-'' @ take 8 (uuid4_hex h),
              completion_object = ''chat.completion'',
              completion_created = now_timestamp h,
              completion_model = mdl,
              choices = [\<lparr>choice_index = 0,
                          choice_message = \<lparr>message_role = ''assistant'',
                            message_content = strip stdout\<rparr>,
                          finish_reason = ''stop''\<rparr>],
              usage = \<lparr>prompt_tokens = length prompt div 4,
                       completion_tokens = length stdout div 4,
                       total_tokens = (length prompt + length stdout) div 4\<rparr>\<rparr>\<rparr>)
   \<and> status (chat_completions h SERGIO_SYSTEM_PROMPT data) = 200
   \<and> status (rag_chat_completions h store SERGIO_SYSTEM_PROMPT data) = 200"
proof -
  have a: "call_claude_cli h prompt False = [error_text e]"
    if "subprocess_run h [CLAUDE_CLI h, ''--print'', prompt] (child_env (os_environ h)) 300
      = RunRaises e" for e
    using that by (simp add: call_claude_cli_def)
  have b: "respond h mdl False prompt =
          \<lparr>status = 200, mimetype = ''application/json'',
           body = JsonBody
             \<lparr>completion_id = ''chatcmpl-'' @ take 8 (uuid4_hex h),
              completion_object = ''chat.completion'',
              completion_created = now_timestamp h,
              completion_model = mdl,
              choices = [\<lparr>choice_index = 0,
                          choice_message = \<lparr>message_role = ''assistant'',
                            message_content = error_text e\<rparr>,
                          finish_reason = ''stop''\<rparr>],
              usage = \<lparr>prompt_tokens = length prompt div 4,
                       completion_tokens = length (error_text e) div 4,
                       total_tokens = (length prompt + length (error_text e)) div 4\<rparr>\<rparr>\<rparr>"
    if "subprocess_run h [CLAUDE_CLI h, ''--print'', prompt] (child_env (os_environ h)) 300
      = RunRaises e" for e
    by (simp add: respond_def buffered_completion_def Let_def a [OF that] strip_error_text)
  have c: "status (respond h m s p) = 200" for m s p
    by (simp add: respond_def)
  have t: "error_text TimeoutExpired = ''[Error: Request timed out after 300s]''"
    and l: "length (error_text TimeoutExpired) = 37"
    and x: "error_text (Exception detail) = ''[Error: '' @ detail @ '']''"
    and m: "length (error_text (Exception detail)) = length detail + 9"
    by simp_all
  show ?thesis
  proof (intro conjI impI)
    assume r: "subprocess_run h [CLAUDE_CLI h, ''--print'', prompt] (child_env (os_environ h)) 300
      = RunRaises TimeoutExpired"
    show "call_claude_cli h prompt False = [''[Error: Request timed out after 300s]'']"
      using a [OF r] by simp
    show "respond h mdl False prompt =
          \<lparr>status = 200, mimetype = ''application/json'',
           body = JsonBody
             \<lparr>completion_id = ''chatcmpl-'' @ take 8 (uuid4_hex h),
              completion_object = ''chat.completion'',
              completion_created = now_timestamp h,
              completion_model = mdl,
              choices = [\<lparr>choice_index = 0,
                          choice_message = \<lparr>message_role = ''assistant'',
                            message_content = ''[Error: Request timed out after 300s]''\<rparr>,
                          finish_reason = ''stop''\<rparr>],
              usage = \<lparr>prompt_tokens = length prompt div 4,
                       completion_tokens = 9,
                       total_tokens = (length prompt + 37) div 4\<rparr>\<rparr>\<rparr>"
      unfolding b [OF r] l t by simp
  next
    assume r: "subprocess_run h [CLAUDE_CLI h, ''--print'', prompt] (child_env (os_environ h)) 300
      = RunRaises (Exception detail)"
    show "call_claude_cli h prompt False = [''[Error: '' @ detail @ '']'']"
      using a [OF r] by simp
    show "respond h mdl False prompt =
          \<lparr>status = 200, mimetype = ''application/json'',
           body = JsonBody
             \<lparr>completion_id = ''chatcmpl-'' @ take 8 (uuid4_hex h),
              completion_object = ''chat.completion'',
              completion_created = now_timestamp h,
              completion_model = mdl,
              choices = [\<lparr>choice_index = 0,
                          choice_message = \<lparr>message_role = ''assistant'',
                            message_content = ''[Error: '' @ detail @ '']''\<rparr>,
                          finish_reason = ''stop''\<rparr>],
              usage = \<lparr>prompt_tokens = length prompt div 4,
                       completion_tokens = (length detail + 9) div 4,
                       total_tokens = (length prompt + (length detail + 9)) div 4\<rparr>\<rparr>\<rparr>"
      unfolding b [OF r] m x by (simp add: ac_simps)
  next
    assume r: "subprocess_run h [CLAUDE_CLI h, ''--print'', prompt] (child_env (os_environ h)) 300
      = CompletedProcess returncode stdout stderr"
    show o: "call_claude_cli h prompt False = [stdout]"
      using r by (simp add: call_claude_cli_def)
    show "respond h mdl False prompt =
          \<lparr>status = 200, mimetype = ''application/json'',
           body = JsonBody
             \<lparr>completion_id = ''chatcmpl-'' @ take 8 (uuid4_hex h),
              completion_object = ''chat.completion'',
              completion_created = now_timestamp h,
              completion_model = mdl,
              choices = [\<lparr>choice_index = 0,
                          choice_message = \<lparr>message_role = ''assistant'',
                            message_content = strip stdout\<rparr>,
                          finish_reason = ''stop''\<rparr>],
              usage = \<lparr>prompt_tokens = length prompt div 4,
                       completion_tokens = length stdout div 4,
                       total_tokens = (length prompt + length stdout) div 4\<rparr>\<rparr>\<rparr>"
      by (simp add: respond_def buffered_completion_def Let_def o)
  next
    show "status (chat_completions h SERGIO_SYSTEM_PROMPT data) = 200"
      by (simp add: c chat_completions_def Let_def)
    show "status (rag_chat_completions h store SERGIO_SYSTEM_PROMPT data) = 200"
      by (simp add: c rag_chat_completions_def Let_def)
  qed
qed

text \<open>
  A run that times out, a run that fails to launch, and a run that exits with status 1
  after printing a line, at a concrete host.
\<close>

theorem backend_failure_becomes_sentinel_text_witness:
  "message_content (choice_message (hd (choices (buffered_completion
       (example_host (RunRaises TimeoutExpired) ([], None)) ''claude-max'' ''System: P''))))
     = ''[Error: Request timed out after 300s]''
   \<and> call_claude_cli (example_host (RunRaises (Exception ''[Errno 2] No such file or directory''))
         ([], None)) ''System: P'' False
     = [''[Error: [Errno 2] No such file or directory]'']
   \<and> call_claude_cli (example_host (CompletedProcess 1 ''Invalid API key\<newline>'' '''')
         ([], None)) ''System: P'' False
     = [''Invalid API key\<newline>'']
   \<and> message_content (choice_message (hd (choices (buffered_completion
       (example_host (CompletedProcess 1 ''Invalid API key\<newline>'' '''') ([], None))
       ''claude-max'' ''System: P''))))
     = ''Invalid API key''
   \<and> status (respond (example_host (RunRaises TimeoutExpired) ([], None)) ''claude-max'' False
        ''System: P'') = 200"
proof -
  have s: "strip ''Invalid API key\<newline>'' = ''Invalid API key''"
    by (simp add: strip_def isspace_def)
  show ?thesis
    using backend_failure_becomes_sentinel_text
        [where h = "example_host (RunRaises TimeoutExpired) ([], None)"
           and prompt = "''System: P''" and mdl = "''claude-max''"]
      backend_failure_becomes_sentinel_text
        [where h = "example_host (RunRaises (Exception ''[Errno 2] No such file or directory''))
             ([], None)"
           and prompt = "''System: P''" and mdl = "''claude-max''"
           and detail = "''[Errno 2] No such file or directory''"]
      backend_failure_becomes_sentinel_text
        [where h = "example_host (CompletedProcess 1 ''Invalid API key\<newline>'' '''') ([], None)"
           and prompt = "''System: P''" and mdl = "''claude-max''"
           and returncode = 1 and stdout = "''Invalid API key\<newline>''" and stderr = "''''"]
    by (simp add: example_host_def respond_def s)
qed

section \<open>Content and token count\<close>

text \<open>
  C9. In buffered mode, when the backend run returns, whatever its exit status, the
  content of the returned message is the standard output of the backend with the
  whitespace at both ends removed, while \<open>completion_tokens\<close> is computed
  from the length of the output as it came. When stripping removes four characters or
  more, \<open>completion_tokens\<close> is greater than the length of the returned content divided by
  four.
\<close>

theorem content_stripped_tokens_unstripped:
  assumes "subprocess_run h [CLAUDE_CLI h, ''--print'', prompt] (child_env (os_environ h)) 300
      = CompletedProcess returncode stdout stderr"
  shows "choices (buffered_completion h mdl prompt)
       = [\<lparr>choice_index = 0,
           choice_message = \<lparr>message_role = ''assistant'', message_content = strip stdout\<rparr>,
           finish_reason = ''stop''\<rparr>]
     \<and> completion_tokens (usage (buffered_completion h mdl prompt)) = length stdout div 4
     \<and> (length (strip stdout) + 4 \<le> length stdout \<longrightarrow>
          length (message_content (choice_message (hd (choices (buffered_completion h mdl prompt)))))
            div 4
          < completion_tokens (usage (buffered_completion h mdl prompt)))"
  using assms by (simp add: buffered_completion_def call_claude_cli_def Let_def) linarith

text \<open>
  An output of five characters followed by four newlines: the content has five
  characters, \<open>completion_tokens\<close> is 2.
\<close>

theorem content_stripped_tokens_unstripped_witness:
  "choices (buffered_completion
       (example_host (CompletedProcess 0 ''Vale.\<newline>\<newline>\<newline>\<newline>'' '''') ([], None))
       ''claude-max'' ''System: P'')
     = [\<lparr>choice_index = 0,
         choice_message = \<lparr>message_role = ''assistant'', message_content = ''Vale.''\<rparr>,
         finish_reason = ''stop''\<rparr>]
   \<and> completion_tokens (usage (buffered_completion
       (example_host (CompletedProcess 0 ''Vale.\<newline>\<newline>\<newline>\<newline>'' '''') ([], None))
       ''claude-max'' ''System: P'')) = 2
   \<and> length ''Vale.'' div 4 < (2::nat)"
  using content_stripped_tokens_unstripped
      [of "example_host (CompletedProcess 0 ''Vale.\<newline>\<newline>\<newline>\<newline>'' '''') ([], None)"
        "''System: P''" 0 "''Vale.\<newline>\<newline>\<newline>\<newline>''" "''''" "''claude-max''"]
  by (simp add: example_host_def strip_def isspace_def Let_def)

section \<open>The retrieval query\<close>

text \<open>
  C10. The retrieval query is the content of the last message whose role is exactly
  \<open>user\<close>, and the empty text when there is none. A message with any other role, or with
  no role, is never chosen, although the assembler renders it as \<open>Human: \<close>: the query
  is the same when all such messages are left out. When the query is not empty, the
  context is what the retriever returns for that query, and the system prompt carries it,
  or the text \<open>No additional context retrieved.\<close> when the retriever returns nothing.
  When the query is empty, because no message has the role \<open>user\<close> or because the content of the
  last such message is empty, retrieval is skipped: whatever the vector store holds, the
  context is empty and the system prompt carries the text
  \<open>No additional context retrieved.\<close>
\<close>

theorem retrieval_query_is_last_user_message:
  "latest_user_message msgs =
     (case filter (\<lambda>m. role m = Some ''user'') msgs of
        [] \<Rightarrow> ''''
      | m # ms \<Rightarrow> get_or (content (last (m # ms))) '''')
   \<and> latest_user_message msgs
       = latest_user_message (filter (\<lambda>m. role m = Some ''user'') msgs)
   \<and> (role msg \<noteq> Some ''user'' \<longrightarrow>
        latest_user_message (msgs @ [msg]) = latest_user_message msgs)
   \<and> (latest_user_message msgs \<noteq> '''' \<longrightarrow>
        personality_context store msgs = retrieve_context store (latest_user_message msgs)
        \<and> rag_system_prompt SERGIO_SYSTEM_PROMPT store msgs
            = SERGIO_SYSTEM_PROMPT @
                (if retrieve_context store (latest_user_message msgs) \<noteq> ''''
                 then retrieve_context store (latest_user_message msgs)
                 else ''No additional context retrieved.''))
   \<and> (latest_user_message msgs = '''' \<longrightarrow>
        personality_context store msgs = ''''
        \<and> rag_system_prompt SERGIO_SYSTEM_PROMPT store msgs
            = SERGIO_SYSTEM_PROMPT @ ''No additional context retrieved.'')"
  by (simp add: latest_user_message_def first_user_content_filter personality_context_def
      rag_system_prompt_def Let_def)

text \<open>
  A message without a role after a user message: the retriever is asked with the user
  message \<open>hola\<close>, so the humor collection, which the later message would open, is not
  consulted. Then a lone message without a role, and a last user message with empty
  content, against a store whose four collections all return documents.
\<close>

theorem retrieval_query_is_last_user_message_witness:
  "latest_user_message
       [\<lparr>role = Some ''user'', content = Some ''hola''\<rparr>,
        \<lparr>role = Some ''assistant'', content = Some ''Dime.''\<rparr>,
        \<lparr>role = None, content = Some ''el universo vibra''\<rparr>] = ''hola''
   \<and> personality_context short_store
       [\<lparr>role = Some ''user'', content = Some ''hola''\<rparr>,
        \<lparr>role = Some ''assistant'', content = Some ''Dime.''\<rparr>,
        \<lparr>role = None, content = Some ''el universo vibra''\<rparr>]
     = ''CONVERSATION EXAMPLES FROM SERGIO:\<newline>Mira, eso no esta mal.\<newline>\<newline>PERSONALITY FRAMEWORKS:\<newline>Identity is interaction.\<newline>\<newline>RHETORICAL DEVICE TO USE:\<newline>Reframing.''
   \<and> rag_system_prompt ''You are Sergio. '' short_store
       [\<lparr>role = Some ''user'', content = Some ''hola''\<rparr>,
        \<lparr>role = Some ''assistant'', content = Some ''Dime.''\<rparr>,
        \<lparr>role = None, content = Some ''el universo vibra''\<rparr>]
     = ''You are Sergio. CONVERSATION EXAMPLES FROM SERGIO:\<newline>Mira, eso no esta mal.\<newline>\<newline>PERSONALITY FRAMEWORKS:\<newline>Identity is interaction.\<newline>\<newline>RHETORICAL DEVICE TO USE:\<newline>Reframing.''
   \<and> render_message \<lparr>role = None, content = Some ''el universo vibra''\<rparr>
       = ''Human: el universo vibra''
   \<and> latest_user_message [\<lparr>role = None, content = Some ''el universo vibra''\<rparr>] = ''''
   \<and> rag_system_prompt ''You are Sergio. '' example_store
         [\<lparr>role = None, content = Some ''el universo vibra''\<rparr>]
       = ''You are Sergio. No additional context retrieved.''
   \<and> rag_system_prompt ''You are Sergio. '' example_store
         [\<lparr>role = Some ''user'', content = Some ''hola''\<rparr>,
          \<lparr>role = Some ''user'', content = Some ''''\<rparr>]
       = ''You are Sergio. No additional context retrieved.''"
proof -
  have g: "\<not> list_ex (contains (lower ''hola'')) humor_keywords"
    by (simp add: lower_def lower_char_def upper_letters_def lower_letters_def
        humor_keywords_def)
  have c: "query_corpus (chroma_collections short_store) ''hola'' []
      = Inr [''CONVERSATION EXAMPLES FROM SERGIO:'', ''Mira, eso no esta mal.'']"
    by (simp add: query_corpus_def short_store_def example_collection_def)
  have p: "query_personality (chroma_collections short_store) ''hola''
        [''CONVERSATION EXAMPLES FROM SERGIO:'', ''Mira, eso no esta mal.'']
      = Inr [''CONVERSATION EXAMPLES FROM SERGIO:'', ''Mira, eso no esta mal.'',
             ''\<newline>PERSONALITY FRAMEWORKS:'', ''Identity is interaction.'']"
    by (simp add: query_personality_def short_store_def example_collection_def)
  have r: "query_rhetorical (chroma_collections short_store) ''hola''
        [''CONVERSATION EXAMPLES FROM SERGIO:'', ''Mira, eso no esta mal.'',
         ''\<newline>PERSONALITY FRAMEWORKS:'', ''Identity is interaction.'']
      = Inr [''CONVERSATION EXAMPLES FROM SERGIO:'', ''Mira, eso no esta mal.'',
             ''\<newline>PERSONALITY FRAMEWORKS:'', ''Identity is interaction.'',
             ''\<newline>RHETORICAL DEVICE TO USE:'', ''Reframing.'']"
    by (simp add: query_rhetorical_def short_store_def example_collection_def)
  have h: "query_humor colls ''hola'' parts = Inr parts" for colls parts
    unfolding query_humor_def using g by simp
  have k: "chroma_client short_store"
    by (simp add: short_store_def)
  have e: "retrieve_context short_store ''hola''
      = ''CONVERSATION EXAMPLES FROM SERGIO:\<newline>Mira, eso no esta mal.\<newline>\<newline>PERSONALITY FRAMEWORKS:\<newline>Identity is interaction.\<newline>\<newline>RHETORICAL DEVICE TO USE:\<newline>Reframing.''"
    using k
    by (simp add: retrieve_context_def context_parts_def try_next_def parts_of_def c p r h)
  have q: "latest_user_message
       [\<lparr>role = Some ''user'', content = Some ''hola''\<rparr>,
        \<lparr>role = Some ''assistant'', content = Some ''Dime.''\<rparr>,
        \<lparr>role = None, content = Some ''el universo vibra''\<rparr>] = ''hola''"
    by (simp add: latest_user_message_def get_or_def)
  show ?thesis
    using retrieval_query_is_last_user_message
        [of "[\<lparr>role = Some ''user'', content = Some ''hola''\<rparr>,
              \<lparr>role = Some ''assistant'', content = Some ''Dime.''\<rparr>,
              \<lparr>role = None, content = Some ''el universo vibra''\<rparr>]"
            "\<lparr>role = None, content = Some ''el universo vibra''\<rparr>" short_store
            "''You are Sergio. ''"]
      retrieval_query_is_last_user_message
        [of "[\<lparr>role = None, content = Some ''el universo vibra''\<rparr>]"
            "\<lparr>role = None, content = Some ''el universo vibra''\<rparr>" example_store
            "''You are Sergio. ''"]
      retrieval_query_is_last_user_message
        [of "[\<lparr>role = Some ''user'', content = Some ''hola''\<rparr>,
              \<lparr>role = Some ''user'', content = Some ''''\<rparr>]"
            "\<lparr>role = None, content = Some ''el universo vibra''\<rparr>" example_store
            "''You are Sergio. ''"]
    unfolding q e by (simp add: get_or_def render_message_def)
qed

section \<open>Empty retrieval\<close>

text \<open>
  C6. When the vector store is unavailable, or no collection is loaded, or every loaded
  collection returns no document, the context block put into the persona template is
  exactly \<open>No additional context retrieved.\<close>, and the transcript is assembled from it as
  usual.
\<close>

theorem no_fragments_gives_sentinel:
  assumes "\<not> chroma_client store
     \<or> chroma_collections store = Map.empty
     \<or> (\<forall>key coll n. chroma_collections store key = Some coll \<longrightarrow>
           returns_nothing (coll (latest_user_message msgs) n))"
  shows "personality_context store msgs = ''''
     \<and> rag_system_prompt SERGIO_SYSTEM_PROMPT store msgs
         = SERGIO_SYSTEM_PROMPT @ ''No additional context retrieved.''
     \<and> build_prompt (rag_system_prompt SERGIO_SYSTEM_PROMPT store msgs) msgs
         = join ''\<newline>\<newline>''
             ((''System: '' @ SERGIO_SYSTEM_PROMPT @ ''No additional context retrieved.'')
              # map render_message msgs)"
proof -
  have "retrieve_context store (latest_user_message msgs) = ''''"
    using assms
    by (auto simp: retrieve_context_def Let_def context_parts_no_collections
        context_parts_nothing)
  then have "personality_context store msgs = ''''"
    by (simp add: personality_context_def Let_def)
  then show ?thesis
    by (simp add: rag_system_prompt_def Let_def build_prompt_def prompt_parts_map)
qed

text \<open>
  The three situations, one store each.
\<close>

theorem no_fragments_gives_sentinel_witness:
  "rag_system_prompt ''You are Sergio. ''
       \<lparr>chroma_client = False, chroma_collections = chroma_collections example_store\<rparr>
       [\<lparr>role = Some ''user'', content = Some ''tengo mucha ansiedad''\<rparr>]
     = ''You are Sergio. No additional context retrieved.''
   \<and> rag_system_prompt ''You are Sergio. ''
       \<lparr>chroma_client = True, chroma_collections = Map.empty\<rparr>
       [\<lparr>role = Some ''user'', content = Some ''tengo mucha ansiedad''\<rparr>]
     = ''You are Sergio. No additional context retrieved.''
   \<and> build_prompt (rag_system_prompt ''You are Sergio. ''
       \<lparr>chroma_client = True,
        chroma_collections = [''corpus'' \<mapsto> example_collection [],
                              ''personality'' \<mapsto> (\<lambda>q n. QueryReturns [])]\<rparr>
       [\<lparr>role = Some ''user'', content = Some ''tengo mucha ansiedad''\<rparr>])
       [\<lparr>role = Some ''user'', content = Some ''tengo mucha ansiedad''\<rparr>]
     = ''System: You are Sergio. No additional context retrieved.\<newline>\<newline>Human: tengo mucha ansiedad''"
proof -
  have 1: "\<not> chroma_client \<lparr>chroma_client = False, chroma_collections = chroma_collections example_store\<rparr>"
    by simp
  have 2: "chroma_collections \<lparr>chroma_client = True, chroma_collections = Map.empty\<rparr> = Map.empty"
    by simp
  have 3: "\<forall>key coll n. chroma_collections \<lparr>chroma_client = True,
        chroma_collections = [''corpus'' \<mapsto> example_collection [],
                              ''personality'' \<mapsto> (\<lambda>q n. QueryReturns [])]\<rparr> key = Some coll \<longrightarrow>
           returns_nothing (coll (latest_user_message [\<lparr>role = Some ''user'', content = Some ''tengo mucha ansiedad''\<rparr>]) n)"
    by (auto simp: returns_nothing_def example_collection_def split: if_splits)
  show ?thesis
    using no_fragments_gives_sentinel
        [of "\<lparr>chroma_client = False, chroma_collections = chroma_collections example_store\<rparr>"
          "[\<lparr>role = Some ''user'', content = Some ''tengo mucha ansiedad''\<rparr>]"
          "''You are Sergio. ''", OF disjI1, OF 1]
      no_fragments_gives_sentinel
        [of "\<lparr>chroma_client = True, chroma_collections = Map.empty\<rparr>"
          "[\<lparr>role = Some ''user'', content = Some ''tengo mucha ansiedad''\<rparr>]"
          "''You are Sergio. ''", OF disjI2, OF disjI1, OF 2]
      no_fragments_gives_sentinel
        [of "\<lparr>chroma_client = True,
              chroma_collections = [''corpus'' \<mapsto> example_collection [],
                                    ''personality'' \<mapsto> (\<lambda>q n. QueryReturns [])]\<rparr>"
          "[\<lparr>role = Some ''user'', content = Some ''tengo mucha ansiedad''\<rparr>]"
          "''You are Sergio. ''", OF disjI2, OF disjI2, OF 3]
    by (simp add: render_message_def get_or_def build_prompt_def prompt_parts_map)
qed

section \<open>A lookup that raises\<close>

text \<open>
  C2 as stated fails. When the lookup in the corpus raises, the personality collection,
  which would return a document for the same query, is not consulted: the context is
  empty and the document is not in it.
\<close>

theorem lookup_failure_hides_later_collections_counterexample:
  "query_personality (chroma_collections (failing_at ''corpus'')) ''tengo mucha ansiedad'' []
     = Inr [''\<newline>PERSONALITY FRAMEWORKS:'', ''Identity is interaction.'']
   \<and> retrieve_context (failing_at ''corpus'') ''tengo mucha ansiedad'' = ''''
   \<and> \<not> contains (retrieve_context (failing_at ''corpus'') ''tengo mucha ansiedad'')
         ''Identity is interaction.''"
proof -
  have 1: "query_personality (chroma_collections (failing_at ''corpus''))
      ''tengo mucha ansiedad'' []
     = Inr [''\<newline>PERSONALITY FRAMEWORKS:'', ''Identity is interaction.'']"
    by (simp add: query_personality_def failing_at_def short_store_def example_collection_def)
  have 2: "query_corpus (chroma_collections (failing_at ''corpus'')) ''tengo mucha ansiedad'' []
     = Inl []"
    by (simp add: query_corpus_def failing_at_def short_store_def failing_collection_def)
  have 3: "retrieve_context (failing_at ''corpus'') ''tengo mucha ansiedad'' = ''''"
    by (simp add: retrieve_context_def context_parts_def try_next_def parts_of_def 2)
  show ?thesis
    unfolding 3 using 1 by simp
qed

text \<open>
  C2 (as amended). When a lookup raises during retrieval, that collection and the
  collections after it in the order corpus, personality, rhetorical, humor are skipped,
  and the blocks of the collections before it stay: the context is the one retrieval
  gives on the store cut down to the earlier collections. The request does not fail: the
  response has status 200 for every store.
\<close>

theorem raising_lookup_ends_retrieval:
  "(lookup_raises (chroma_collections store) q ''corpus'' 3 \<longrightarrow>
      retrieve_context store q = '''')
   \<and> (\<not> lookup_raises (chroma_collections store) q ''corpus'' 3
      \<and> lookup_raises (chroma_collections store) q ''personality'' 2 \<longrightarrow>
      retrieve_context store q
        = retrieve_context
            (store\<lparr>chroma_collections := chroma_collections store |` {''corpus''}\<rparr>) q)
   \<and> (\<not> lookup_raises (chroma_collections store) q ''corpus'' 3
      \<and> \<not> lookup_raises (chroma_collections store) q ''personality'' 2
      \<and> lookup_raises (chroma_collections store) q ''rhetorical'' 1 \<longrightarrow>
      retrieve_context store q
        = retrieve_context
            (store\<lparr>chroma_collections :=
               chroma_collections store |` {''corpus'', ''personality''}\<rparr>) q)
   \<and> (\<not> lookup_raises (chroma_collections store) q ''corpus'' 3
      \<and> \<not> lookup_raises (chroma_collections store) q ''personality'' 2
      \<and> \<not> lookup_raises (chroma_collections store) q ''rhetorical'' 1
      \<and> lookup_raises (chroma_collections store) q ''humor'' 2 \<longrightarrow>
      retrieve_context store q
        = retrieve_context
            (store\<lparr>chroma_collections :=
               chroma_collections store |` {''corpus'', ''personality'', ''rhetorical''}\<rparr>) q)
   \<and> status (rag_chat_completions h store SERGIO_SYSTEM_PROMPT data) = 200"
proof (intro conjI impI)
  assume "lookup_raises (chroma_collections store) q ''corpus'' 3"
  then show "retrieve_context store q = ''''"
    by (simp add: retrieve_context_def context_parts_corpus_raises)
next
  assume "\<not> lookup_raises (chroma_collections store) q ''corpus'' 3
      \<and> lookup_raises (chroma_collections store) q ''personality'' 2"
  then show "retrieve_context store q
        = retrieve_context
            (store\<lparr>chroma_collections := chroma_collections store |` {''corpus''}\<rparr>) q"
    by (intro retrieve_context_cong context_parts_personality_raises) simp_all
next
  assume "\<not> lookup_raises (chroma_collections store) q ''corpus'' 3
      \<and> \<not> lookup_raises (chroma_collections store) q ''personality'' 2
      \<and> lookup_raises (chroma_collections store) q ''rhetorical'' 1"
  then show "retrieve_context store q
        = retrieve_context
            (store\<lparr>chroma_collections :=
               chroma_collections store |` {''corpus'', ''personality''}\<rparr>) q"
    by (intro retrieve_context_cong context_parts_rhetorical_raises) simp_all
next
  assume "\<not> lookup_raises (chroma_collections store) q ''corpus'' 3
      \<and> \<not> lookup_raises (chroma_collections store) q ''personality'' 2
      \<and> \<not> lookup_raises (chroma_collections store) q ''rhetorical'' 1
      \<and> lookup_raises (chroma_collections store) q ''humor'' 2"
  then show "retrieve_context store q
        = retrieve_context
            (store\<lparr>chroma_collections :=
               chroma_collections store |` {''corpus'', ''personality'', ''rhetorical''}\<rparr>) q"
    by (intro retrieve_context_cong context_parts_humor_raises) simp_all
next
  show "status (rag_chat_completions h store SERGIO_SYSTEM_PROMPT data) = 200"
    by (simp add: rag_chat_completions_def respond_def Let_def)
qed

text \<open>
  A store of four collections in which one lookup raises, for each of the four.
\<close>

theorem raising_lookup_ends_retrieval_witness:
  "retrieve_context (failing_at ''corpus'') ''el universo vibra'' = ''''
   \<and> retrieve_context (failing_at ''personality'') ''el universo vibra''
     = ''CONVERSATION EXAMPLES FROM SERGIO:\<newline>Mira, eso no esta mal.''
   \<and> retrieve_context (failing_at ''rhetorical'') ''el universo vibra''
     = ''CONVERSATION EXAMPLES FROM SERGIO:\<newline>Mira, eso no esta mal.\<newline>\<newline>PERSONALITY FRAMEWORKS:\<newline>Identity is interaction.''
   \<and> retrieve_context (failing_at ''humor'') ''el universo vibra''
     = ''CONVERSATION EXAMPLES FROM SERGIO:\<newline>Mira, eso no esta mal.\<newline>\<newline>PERSONALITY FRAMEWORKS:\<newline>Identity is interaction.\<newline>\<newline>RHETORICAL DEVICE TO USE:\<newline>Reframing.''"
proof -
  note defs = failing_at_def short_store_def failing_collection_def example_collection_def
  note run = retrieve_context_def context_parts_def try_next_def parts_of_def
    query_corpus_restrict query_personality_restrict query_rhetorical_restrict
    query_humor_restrict
  have a: "retrieve_context (failing_at ''corpus'') ''el universo vibra'' = ''''"
    using raising_lookup_ends_retrieval [of "failing_at ''corpus''" "''el universo vibra''"]
    by (simp add: lookup_raises_def defs)
  have hb: "\<not> lookup_raises (chroma_collections (failing_at ''personality''))
        ''el universo vibra'' ''corpus'' 3
      \<and> lookup_raises (chroma_collections (failing_at ''personality''))
        ''el universo vibra'' ''personality'' 2"
    by (simp add: lookup_raises_def defs)
  have rb: "retrieve_context
        ((failing_at ''personality'')\<lparr>chroma_collections :=
           chroma_collections (failing_at ''personality'') |` {''corpus''}\<rparr>)
        ''el universo vibra''
      = ''CONVERSATION EXAMPLES FROM SERGIO:\<newline>Mira, eso no esta mal.''"
    by (simp add: run query_corpus_def query_personality_def query_rhetorical_def
        query_humor_def humor_gate_example defs)
  have b: "retrieve_context (failing_at ''personality'') ''el universo vibra''
     = ''CONVERSATION EXAMPLES FROM SERGIO:\<newline>Mira, eso no esta mal.''"
    using raising_lookup_ends_retrieval [of "failing_at ''personality''" "''el universo vibra''"]
      hb unfolding rb by blast
  have hc: "\<not> lookup_raises (chroma_collections (failing_at ''rhetorical''))
        ''el universo vibra'' ''corpus'' 3
      \<and> \<not> lookup_raises (chroma_collections (failing_at ''rhetorical''))
        ''el universo vibra'' ''personality'' 2
      \<and> lookup_raises (chroma_collections (failing_at ''rhetorical''))
        ''el universo vibra'' ''rhetorical'' 1"
    by (simp add: lookup_raises_def defs)
  have rc: "retrieve_context
        ((failing_at ''rhetorical'')\<lparr>chroma_collections :=
           chroma_collections (failing_at ''rhetorical'') |` {''corpus'', ''personality''}\<rparr>)
        ''el universo vibra''
      = ''CONVERSATION EXAMPLES FROM SERGIO:\<newline>Mira, eso no esta mal.\<newline>\<newline>PERSONALITY FRAMEWORKS:\<newline>Identity is interaction.''"
    by (simp add: run query_corpus_def query_personality_def query_rhetorical_def
        query_humor_def humor_gate_example defs)
  have c: "retrieve_context (failing_at ''rhetorical'') ''el universo vibra''
     = ''CONVERSATION EXAMPLES FROM SERGIO:\<newline>Mira, eso no esta mal.\<newline>\<newline>PERSONALITY FRAMEWORKS:\<newline>Identity is interaction.''"
    using raising_lookup_ends_retrieval [of "failing_at ''rhetorical''" "''el universo vibra''"]
      hc unfolding rc by blast
  have hd: "\<not> lookup_raises (chroma_collections (failing_at ''humor''))
        ''el universo vibra'' ''corpus'' 3
      \<and> \<not> lookup_raises (chroma_collections (failing_at ''humor''))
        ''el universo vibra'' ''personality'' 2
      \<and> \<not> lookup_raises (chroma_collections (failing_at ''humor''))
        ''el universo vibra'' ''rhetorical'' 1
      \<and> lookup_raises (chroma_collections (failing_at ''humor''))
        ''el universo vibra'' ''humor'' 2"
    by (simp add: lookup_raises_def defs)
  have rd: "retrieve_context
        ((failing_at ''humor'')\<lparr>chroma_collections :=
           chroma_collections (failing_at ''humor'')
             |` {''corpus'', ''personality'', ''rhetorical''}\<rparr>)
        ''el universo vibra''
      = ''CONVERSATION EXAMPLES FROM SERGIO:\<newline>Mira, eso no esta mal.\<newline>\<newline>PERSONALITY FRAMEWORKS:\<newline>Identity is interaction.\<newline>\<newline>RHETORICAL DEVICE TO USE:\<newline>Reframing.''"
    by (simp add: run query_corpus_def query_personality_def query_rhetorical_def
        query_humor_def humor_gate_example defs)
  have d: "retrieve_context (failing_at ''humor'') ''el universo vibra''
     = ''CONVERSATION EXAMPLES FROM SERGIO:\<newline>Mira, eso no esta mal.\<newline>\<newline>PERSONALITY FRAMEWORKS:\<newline>Identity is interaction.\<newline>\<newline>RHETORICAL DEVICE TO USE:\<newline>Reframing.''"
    using raising_lookup_ends_retrieval [of "failing_at ''humor''" "''el universo vibra''"]
      hd unfolding rd by blast
  show ?thesis
    using a b c d by simp
qed

section \<open>Truncation\<close>

text \<open>
  C7. Each block of the retriever keeps the context parts it was given and appends
  nothing, or its heading followed by its fragments, and no fragment is longer than the
  cap of its collection: 500 characters for the conversation examples of the corpus, 300
  for the personality frameworks, 200 for the rhetorical device and 200 for the humor
  patterns. The parts that are joined into the context block are therefore four such
  blocks, one after the other in that order, each possibly empty.
\<close>

theorem fragments_within_caps:
  "take (length parts) (parts_of (query_corpus colls q parts)) = parts
   \<and> capped_block ''CONVERSATION EXAMPLES FROM SERGIO:'' 500
       (drop (length parts) (parts_of (query_corpus colls q parts)))
   \<and> take (length parts) (parts_of (query_personality colls q parts)) = parts
   \<and> capped_block ''\<newline>PERSONALITY FRAMEWORKS:'' 300
       (drop (length parts) (parts_of (query_personality colls q parts)))
   \<and> take (length parts) (parts_of (query_rhetorical colls q parts)) = parts
   \<and> capped_block ''\<newline>RHETORICAL DEVICE TO USE:'' 200
       (drop (length parts) (parts_of (query_rhetorical colls q parts)))
   \<and> take (length parts) (parts_of (query_humor colls q parts)) = parts
   \<and> capped_block ''\<newline>HUMOR PATTERNS TO DEPLOY:'' 200
       (drop (length parts) (parts_of (query_humor colls q parts)))
   \<and> (\<exists>b1 b2 b3 b4.
        context_parts colls q = b1 @ b2 @ b3 @ b4
        \<and> capped_block ''CONVERSATION EXAMPLES FROM SERGIO:'' 500 b1
        \<and> capped_block ''\<newline>PERSONALITY FRAMEWORKS:'' 300 b2
        \<and> capped_block ''\<newline>RHETORICAL DEVICE TO USE:'' 200 b3
        \<and> capped_block ''\<newline>HUMOR PATTERNS TO DEPLOY:'' 200 b4)"
proof -
  obtain c where c: "capped_block ''CONVERSATION EXAMPLES FROM SERGIO:'' 500 c"
      "query_corpus colls q parts \<in> {Inl parts, Inr (parts @ c)}"
    using query_corpus_block by blast
  obtain p where p: "capped_block ''\<newline>PERSONALITY FRAMEWORKS:'' 300 p"
      "query_personality colls q parts \<in> {Inl parts, Inr (parts @ p)}"
    using query_personality_block by blast
  obtain r where r: "capped_block ''\<newline>RHETORICAL DEVICE TO USE:'' 200 r"
      "query_rhetorical colls q parts \<in> {Inl parts, Inr (parts @ r)}"
    using query_rhetorical_block by blast
  obtain h where h: "capped_block ''\<newline>HUMOR PATTERNS TO DEPLOY:'' 200 h"
      "query_humor colls q parts \<in> {Inl parts, Inr (parts @ h)}"
    using query_humor_block by blast
  show ?thesis
    using parts_of_block [OF c(2) c(1)] parts_of_block [OF p(2) p(1)]
      parts_of_block [OF r(2) r(1)] parts_of_block [OF h(2) h(1)] context_parts_blocks
    by blast
qed

text \<open>
  Documents of 600, 400, 250 and 250 characters come out with 500, 300, 200 and 200.
\<close>

theorem fragments_within_caps_witness:
  "parts_of (query_corpus (chroma_collections example_store) ''El universo me manda energia'' [])
     = [''CONVERSATION EXAMPLES FROM SERGIO:'', replicate 500 (CHR ''c'')]
   \<and> capped_block ''CONVERSATION EXAMPLES FROM SERGIO:'' 500
       [''CONVERSATION EXAMPLES FROM SERGIO:'', replicate 500 (CHR ''c'')]
   \<and> parts_of (query_personality (chroma_collections example_store)
         ''El universo me manda energia'' [])
     = [''\<newline>PERSONALITY FRAMEWORKS:'', replicate 300 (CHR ''p'')]
   \<and> capped_block ''\<newline>PERSONALITY FRAMEWORKS:'' 300
       [''\<newline>PERSONALITY FRAMEWORKS:'', replicate 300 (CHR ''p'')]
   \<and> parts_of (query_rhetorical (chroma_collections example_store)
         ''El universo me manda energia'' [])
     = [''\<newline>RHETORICAL DEVICE TO USE:'', replicate 200 (CHR ''r'')]
   \<and> capped_block ''\<newline>RHETORICAL DEVICE TO USE:'' 200
       [''\<newline>RHETORICAL DEVICE TO USE:'', replicate 200 (CHR ''r'')]
   \<and> parts_of (query_humor (chroma_collections example_store)
         ''El universo me manda energia'' [])
     = [''\<newline>HUMOR PATTERNS TO DEPLOY:'', replicate 200 (CHR ''h'')]
   \<and> capped_block ''\<newline>HUMOR PATTERNS TO DEPLOY:'' 200
       [''\<newline>HUMOR PATTERNS TO DEPLOY:'', replicate 200 (CHR ''h'')]"
proof -
  have c: "query_corpus (chroma_collections example_store) ''El universo me manda energia'' []
      = Inr [''CONVERSATION EXAMPLES FROM SERGIO:'', replicate 500 (CHR ''c'')]"
    by (simp add: query_corpus_def example_store_def example_collection_def)
  have p: "query_personality (chroma_collections example_store)
        ''El universo me manda energia'' []
      = Inr [''\<newline>PERSONALITY FRAMEWORKS:'', replicate 300 (CHR ''p'')]"
    by (simp add: query_personality_def example_store_def example_collection_def)
  have r: "query_rhetorical (chroma_collections example_store)
        ''El universo me manda energia'' []
      = Inr [''\<newline>RHETORICAL DEVICE TO USE:'', replicate 200 (CHR ''r'')]"
    by (simp add: query_rhetorical_def example_store_def example_collection_def)
  have g: "list_ex (contains (lower ''El universo me manda energia'')) humor_keywords"
    by (simp add: lower_def lower_char_def upper_letters_def lower_letters_def
        humor_keywords_def)
  have h: "query_humor (chroma_collections example_store) ''El universo me manda energia'' []
      = Inr [''\<newline>HUMOR PATTERNS TO DEPLOY:'', replicate 200 (CHR ''h'')]"
    unfolding query_humor_def using g
    by (simp add: example_store_def example_collection_def)
  have e: "parts_of (Inr xs) = xs" for xs :: "string list"
    by (simp add: parts_of_def)
  show ?thesis
    using fragments_within_caps
        [of "[]" "chroma_collections example_store" "''El universo me manda energia''"]
    unfolding c p r h e by simp
qed

end
